theory Spec2Isabelle
  imports Main "HOL-Library.Sublist" "HOL-Library.AList"
begin

section \<open>Exceptions and strings\<close>

text \<open>
  A Python \<open>str\<close> is modelled as \<^typ>\<open>string\<close>, one \<^typ>\<open>char\<close> per character.
  Characters of the program's own literals that lie outside Latin-1 (box-drawing
  connectors, emoji, dashes) are written as their UTF-8 bytes; nothing below depends on
  their length.

  Exceptions are values. \<open>ValueError\<close> stands for the class and its subclasses, as
  the handlers in \<open>app.py\<close> catch them; \<open>GithubException\<close> carries its \<open>data\<close>
  and its \<open>str\<close>; \<open>OtherException\<close> is any exception that is neither (a transport
  error, a \<open>TypeError\<close>, an \<open>AttributeError\<close>, a \<open>KeyError\<close>).

  The \<open>data\<close> of a \<open>GithubException\<close> is the decoded body of the response: a dict,
  of which the program reads the \<open>message\<close> entry, or something that is no dict
  (\<open>None\<close>, a string).
\<close>

datatype exn_data = DataDict "string option" | DataOther

datatype exn =
    ValueError string
  | GithubException exn_data string
  | HTTPException nat string
  | OtherException string

text \<open>\<open>str.strip()\<close> removes the characters for which \<open>str.isspace\<close> holds.\<close>

definition isspace :: "char \<Rightarrow> bool" where
  "isspace c = (let n = (of_char c :: nat)
                in (9 \<le> n \<and> n \<le> 13) \<or> (28 \<le> n \<and> n \<le> 32) \<or> n = 133 \<or> n = 160)"

definition lstrip :: "string \<Rightarrow> string" where
  "lstrip s = dropWhile isspace s"

definition rstrip :: "string \<Rightarrow> string" where
  "rstrip s = rev (dropWhile isspace (rev s))"

definition strip :: "string \<Rightarrow> string" where
  "strip s = rstrip (lstrip s)"

text \<open>\<open>s.rstrip("/")\<close> removes every trailing slash.\<close>

definition rstrip_slash :: "string \<Rightarrow> string" where
  "rstrip_slash s = rev (dropWhile (\<lambda>c. c = CHR ''/'') (rev s))"

definition startswith :: "string \<Rightarrow> string \<Rightarrow> bool" where
  "startswith s p = (take (length p) s = p)"

definition endswith :: "string \<Rightarrow> string \<Rightarrow> bool" where
  "endswith s p = (length p \<le> length s \<and> drop (length s - length p) s = p)"

section \<open>URL normalizer (\<open>tools.py\<close>)\<close>

text \<open>
  \<open>[^/]+/[^/]+\<close> matched at the start of \<open>s\<close>: the first run of non-slash characters
  is taken greedily and must be followed by a slash, so no shorter run can match; the
  second run is greedy too. The result is the matched text.
\<close>

definition owner_repo_at :: "string \<Rightarrow> string option" where
  "owner_repo_at s =
     (let owner = takeWhile (\<lambda>c. c \<noteq> CHR ''/'') s;
          rest = dropWhile (\<lambda>c. c \<noteq> CHR ''/'') s
      in if owner = [] then None
         else (case rest of
                 [] \<Rightarrow> None
               | _ # t \<Rightarrow>
                   (let repo = takeWhile (\<lambda>c. c \<noteq> CHR ''/'') t
                    in if repo = [] then None
                       else Some (owner @ ''/'' @ repo))))"

text \<open>
  \<open>re.match(r"(?:https?://)?github\.com/([^/]+/[^/]+)", url)\<close>: anchored at the start
  only. The optional scheme is tried first (\<open>https://\<close>, then \<open>http://\<close>), then the
  match without a scheme. The value is group 1.
\<close>

fun match_after :: "string list \<Rightarrow> string \<Rightarrow> string option" where
  "match_after [] url = None"
| "match_after (p # ps) url =
     (if startswith url p
      then (case owner_repo_at (drop (length p) url) of
              Some m \<Rightarrow> Some m
            | None \<Rightarrow> match_after ps url)
      else match_after ps url)"

definition match_full_url :: "string \<Rightarrow> string option" where
  "match_full_url url =
     match_after [''https://github.com/'', ''http://github.com/'', ''github.com/''] url"

text \<open>
  \<open>re.match(r"^([^/]+/[^/]+)$", url)\<close>: after the greedy second run the position is
  the end of the string or a slash; \<open>$\<close> holds only at the end (or before a final
  newline, which the greedy run has already taken), so the pattern matches exactly when
  the run reaches the end, and group 1 is the whole string.
\<close>

definition match_owner_repo :: "string \<Rightarrow> string option" where
  "match_owner_repo url =
     (case owner_repo_at url of
        Some m \<Rightarrow> if m = url then Some m else None
      | None \<Rightarrow> None)"

text \<open>The first three statements of \<open>parse_repo_url\<close>: trim, drop trailing slashes, drop \<open>.git\<close>.\<close>

definition clean_url :: "string \<Rightarrow> string" where
  "clean_url url0 =
     (let url = rstrip_slash (strip url0)
      in if endswith url ''.git'' then take (length url - 4) url else url)"

definition parse_repo_url :: "string \<Rightarrow> exn + string" where
  "parse_repo_url url0 =
     (let url = clean_url url0
      in case match_full_url url of
           Some m \<Rightarrow> Inr m
         | None \<Rightarrow>
             (case match_owner_repo url of
                Some m \<Rightarrow> Inr m
              | None \<Rightarrow>
                  Inl (ValueError (''Invalid GitHub URL: '' @ [CHR 0x27] @ url @ [CHR 0x27]
                         @ ''. Expected format: https://github.com/owner/repo''))))"

text \<open>The words of the specification: the shapes of a reference.\<close>

fun split_slash :: "string \<Rightarrow> string list" where
  "split_slash [] = [[]]"
| "split_slash (c # cs) =
     (if c = CHR ''/'' then [] # split_slash cs
      else (case split_slash cs of p # ps \<Rightarrow> (c # p) # ps | [] \<Rightarrow> [[c]]))"

definition two_part :: "string \<Rightarrow> bool" where
  "two_part s = (case split_slash s of [a, b] \<Rightarrow> a \<noteq> [] \<and> b \<noteq> [] | _ \<Rightarrow> False)"

definition host_prefixed :: "string \<Rightarrow> bool" where
  "host_prefixed s =
     (startswith s ''https://github.com/'' \<or> startswith s ''http://github.com/''
      \<or> startswith s ''github.com/'')"

definition name_part :: "string \<Rightarrow> bool" where
  "name_part s = (s \<noteq> [] \<and> CHR ''/'' \<notin> set s \<and> \<not> isspace (hd s) \<and> \<not> isspace (last s))"

section \<open>The remote repository client\<close>

text \<open>
  What the program sees of the hosting API. A \<open>ContentFile\<close> is an entry of a directory
  listing (\<open>name\<close>, \<open>type\<close>, \<open>path\<close>) or a single file (\<open>encoding\<close>,
  \<open>content\<close>); \<open>get_contents\<close> answers with a listing, a single file, or raises.
  Within one request the remote state is fixed, so each call is a function of its path.
\<close>

record content_file =
  cf_name :: string
  cf_type :: string
  cf_path :: string
  cf_encoding :: string
  cf_content :: "string option"

datatype contents = Listing "content_file list" | Single content_file

record repo =
  repo_full_name :: string
  repo_name :: string
  repo_description :: "string option"
  repo_homepage :: "string option"
  repo_stargazers_count :: int
  repo_forks_count :: int
  repo_open_issues_count :: int
  repo_subscribers_count :: int
  repo_default_branch :: string
  repo_license :: "string option"
  repo_created_at :: string
  repo_updated_at :: string
  repo_fork :: bool
  repo_html_url :: string
  get_topics :: "exn + string list"
  get_languages :: "exn + (string \<times> int) list"
  get_contents :: "string \<Rightarrow> exn + contents"

section \<open>Repository aggregation (\<open>tools.py\<close>)\<close>

definition IMPORTANT_FILES :: "string list" where
  "IMPORTANT_FILES =
     [''setup.py'', ''setup.cfg'', ''pyproject.toml'', ''package.json'', ''Cargo.toml'',
      ''go.mod'', ''pom.xml'', ''build.gradle'', ''Makefile'', ''Dockerfile'',
      ''docker-compose.yml'', ''docker-compose.yaml'', ''.github/workflows'', ''LICENSE'',
      ''CONTRIBUTING.md'']"

definition MAX_FILE_CONTENT_LENGTH :: nat where
  "MAX_FILE_CONTENT_LENGTH = 3000"

definition MAX_TREE_DEPTH :: int where
  "MAX_TREE_DEPTH = 3"

text \<open>A node of the tree: the dict with keys \<open>name\<close>, \<open>type\<close>, \<open>path\<close> and, when set, \<open>children\<close>.\<close>

datatype tree_node =
  Node (node_name: string) (node_type: string) (node_path: string)
       (node_children: "tree_node list option")

text \<open>
  \<open>_build_tree\<close>. Only \<open>GithubException\<close> is caught; any other exception of the
  listing call leaves the function, and so does the \<open>TypeError\<close> of iterating over a
  single file. \<open>build_nodes\<close> is the \<open>for\<close> loop over the listing.
\<close>

function build_tree :: "repo \<Rightarrow> string \<Rightarrow> int \<Rightarrow> exn + tree_node list"
  and build_nodes :: "repo \<Rightarrow> content_file list \<Rightarrow> int \<Rightarrow> exn + tree_node list"
where
  "build_tree r path depth =
     (if depth \<ge> MAX_TREE_DEPTH then Inr []
      else (case get_contents r path of
              Inl (GithubException d m) \<Rightarrow> Inr []
            | Inl e \<Rightarrow> Inl e
            | Inr (Single f) \<Rightarrow> Inl (OtherException ''TypeError: object is not iterable'')
            | Inr (Listing items) \<Rightarrow> build_nodes r items depth))"
| "build_nodes r [] depth = Inr []"
| "build_nodes r (item # items) depth =
     (let ty = (if cf_type item = ''dir'' then ''dir'' else ''file'')
      in if cf_type item = ''dir'' \<and> depth < MAX_TREE_DEPTH - 1
         then (case build_tree r (cf_path item) (depth + 1) of
                 Inl e \<Rightarrow> Inl e
               | Inr children \<Rightarrow>
                   (case build_nodes r items depth of
                      Inl e \<Rightarrow> Inl e
                    | Inr tree \<Rightarrow> Inr (Node (cf_name item) ty (cf_path item) (Some children) # tree)))
         else (case build_nodes r items depth of
                 Inl e \<Rightarrow> Inl e
               | Inr tree \<Rightarrow> Inr (Node (cf_name item) ty (cf_path item) None # tree)))"
  by pat_completeness auto
termination
  by (relation "measures [\<lambda>x. case x of Inl (r, p, d) \<Rightarrow> nat (MAX_TREE_DEPTH - d)
                                       | Inr (r, items, d) \<Rightarrow> nat (MAX_TREE_DEPTH - d),
                          \<lambda>x. case x of Inl (r, p, d) \<Rightarrow> 1 | Inr (r, items, d) \<Rightarrow> 0,
                          \<lambda>x. case x of Inl (r, p, d) \<Rightarrow> 0 | Inr (r, items, d) \<Rightarrow> length items]")
    (auto simp: MAX_TREE_DEPTH_def)

text \<open>\<open>"\n".join(lines)\<close>\<close>

fun join :: "string \<Rightarrow> string list \<Rightarrow> string" where
  "join sep [] = []"
| "join sep [x] = x"
| "join sep (x # y # ys) = x @ sep @ join sep (y # ys)"

text \<open>
  \<open>_format_tree\<close>. The connectors and icons are the UTF-8 bytes of the source's
  literals. \<open>format_lines\<close> is the loop; \<open>is_last\<close> holds for the last node of the list.
\<close>

definition connector_last :: string where
  "connector_last = [CHR 0xE2, CHR 0x94, CHR 0x94, CHR 0xE2, CHR 0x94, CHR 0x80,
                     CHR 0xE2, CHR 0x94, CHR 0x80] @ '' ''"

definition connector_mid :: string where
  "connector_mid = [CHR 0xE2, CHR 0x94, CHR 0x9C, CHR 0xE2, CHR 0x94, CHR 0x80,
                    CHR 0xE2, CHR 0x94, CHR 0x80] @ '' ''"

definition icon_dir :: string where
  "icon_dir = [CHR 0xF0, CHR 0x9F, CHR 0x93, CHR 0x81] @ '' ''"

definition icon_file :: string where
  "icon_file = [CHR 0xF0, CHR 0x9F, CHR 0x93, CHR 0x84] @ '' ''"

definition extension_mid :: string where
  "extension_mid = [CHR 0xE2, CHR 0x94, CHR 0x82] @ ''   ''"

fun format_tree :: "tree_node list \<Rightarrow> string \<Rightarrow> string"
  and format_lines :: "tree_node list \<Rightarrow> string \<Rightarrow> string list"
where
  "format_tree tree pfx = join ''\<newline>'' (format_lines tree pfx)"
| "format_lines [] pfx = []"
| "format_lines (Node name ty path children # rest) pfx =
     (let is_last = (rest = []);
          connector = (if is_last then connector_last else connector_mid);
          icon = (if ty = ''dir'' then icon_dir else icon_file);
          line = pfx @ connector @ icon @ name;
          extension = (if is_last then ''    '' else extension_mid)
      in line # (case children of
                   Some ch \<Rightarrow> [format_tree ch (pfx @ extension)]
                 | None \<Rightarrow> [])
         @ format_lines rest pfx)"

text \<open>
  \<open>_read_file_content\<close>. \<open>decode\<close> stands for
  \<open>base64.b64decode(content).decode("utf-8", errors="replace")\<close>, which raises on
  malformed input. Every exception is caught, also the \<open>AttributeError\<close> of a listing
  that has no \<open>encoding\<close>.
\<close>

definition read_file_content ::
  "(string \<Rightarrow> exn + string) \<Rightarrow> repo \<Rightarrow> string \<Rightarrow> string option" where
  "read_file_content decode r file_path =
     (case get_contents r file_path of
        Inl e \<Rightarrow> None
      | Inr (Listing items) \<Rightarrow> None
      | Inr (Single content_file) \<Rightarrow>
          (case cf_content content_file of
             None \<Rightarrow> None
           | Some content \<Rightarrow>
               if cf_encoding content_file = ''base64'' \<and> content \<noteq> []
               then (case decode content of
                       Inl e \<Rightarrow> None
                     | Inr decoded \<Rightarrow> Some (take MAX_FILE_CONTENT_LENGTH decoded))
               else None))"

text \<open>The digest: the dict returned by \<open>fetch_repo_data\<close>.\<close>

record metadata =
  md_full_name :: string
  md_name :: string
  md_description :: string
  md_homepage :: string
  md_stars :: int
  md_forks :: int
  md_open_issues :: int
  md_watchers :: int
  md_default_branch :: string
  md_license :: string
  md_topics :: "string list"
  md_created_at :: string
  md_updated_at :: string
  md_is_fork :: bool
  md_html_url :: string

record digest =
  metadata :: metadata
  languages :: "(string \<times> int) list"
  file_tree :: string
  important_files :: "(string \<times> string) list"
  existing_readme :: "string option"

text \<open>\<open>x or default\<close> on an optional string: \<open>None\<close> and the empty string are falsy.\<close>

definition or_default :: "string option \<Rightarrow> string \<Rightarrow> string" where
  "or_default x d = (case x of None \<Rightarrow> d | Some s \<Rightarrow> if s = [] then d else s)"

text \<open>
  The loop over \<open>IMPORTANT_FILES\<close>: \<open>important_file_contents[file_path] = content\<close>
  when the content is truthy. The dict keeps insertion order.
\<close>

fun read_important ::
  "(string \<Rightarrow> exn + string) \<Rightarrow> repo \<Rightarrow> string list \<Rightarrow> (string \<times> string) list
     \<Rightarrow> (string \<times> string) list" where
  "read_important decode r [] acc = acc"
| "read_important decode r (file_path # rest) acc =
     (case read_file_content decode r file_path of
        None \<Rightarrow> read_important decode r rest acc
      | Some content \<Rightarrow>
          if content \<noteq> [] then read_important decode r rest (AList.update file_path content acc)
          else read_important decode r rest acc)"

text \<open>The loop over the README candidates, left at the first truthy content.\<close>

definition README_NAMES :: "string list" where
  "README_NAMES = [''README.md'', ''readme.md'', ''README.rst'', ''README.txt'', ''README'']"

fun find_readme ::
  "(string \<Rightarrow> exn + string) \<Rightarrow> repo \<Rightarrow> string list \<Rightarrow> string option" where
  "find_readme decode r [] = None"
| "find_readme decode r (readme_name # rest) =
     (case read_file_content decode r readme_name of
        None \<Rightarrow> find_readme decode r rest
      | Some content \<Rightarrow> if content \<noteq> [] then Some content else find_readme decode r rest)"

text \<open>
  \<open>fetch_repo_data\<close>. \<open>github\<close> is the client: \<open>github auth full_name\<close> is
  \<open>Github(auth).get_repo(full_name)\<close>, with \<open>auth = None\<close> for the anonymous client
  built when the token is empty. The handler of \<open>get_repo\<close> evaluates
  \<open>e.data.get('message', str(e))\<close>, which is an \<open>AttributeError\<close> when the data is no
  dict. The calls \<open>repo.get_topics()\<close> and \<open>repo.get_languages()\<close> stand outside any
  \<open>try\<close>.
\<close>

definition fetch_repo_data ::
  "(string option \<Rightarrow> string \<Rightarrow> exn + repo) \<Rightarrow> (string \<Rightarrow> exn + string)
     \<Rightarrow> string \<Rightarrow> string \<Rightarrow> exn + digest" where
  "fetch_repo_data github decode repo_url github_token =
     (case parse_repo_url repo_url of
        Inl e \<Rightarrow> Inl e
      | Inr full_name \<Rightarrow>
          (case github (if github_token \<noteq> [] then Some github_token else None) full_name of
             Inl (GithubException (DataDict message) m) \<Rightarrow>
               Inl (ValueError (''Could not access repository '' @ [CHR 0x27] @ full_name
                      @ [CHR 0x27] @ '': ''
                      @ (case message of Some msg \<Rightarrow> msg | None \<Rightarrow> m)))
           | Inl (GithubException DataOther m) \<Rightarrow>
               Inl (OtherException ''AttributeError: object has no attribute get'')
           | Inl e \<Rightarrow> Inl e
           | Inr r \<Rightarrow>
               (case get_topics r of
                  Inl e \<Rightarrow> Inl e
                | Inr topics \<Rightarrow>
                    (let md = \<lparr> md_full_name = repo_full_name r,
                                md_name = repo_name r,
                                md_description = or_default (repo_description r) ''No description provided'',
                                md_homepage = or_default (repo_homepage r) [],
                                md_stars = repo_stargazers_count r,
                                md_forks = repo_forks_count r,
                                md_open_issues = repo_open_issues_count r,
                                md_watchers = repo_subscribers_count r,
                                md_default_branch = repo_default_branch r,
                                md_license = (case repo_license r of
                                                Some n \<Rightarrow> n | None \<Rightarrow> ''Not specified''),
                                md_topics = topics,
                                md_created_at = repo_created_at r,
                                md_updated_at = repo_updated_at r,
                                md_is_fork = repo_fork r,
                                md_html_url = repo_html_url r \<rparr>
                     in case get_languages r of
                          Inl e \<Rightarrow> Inl e
                        | Inr langs \<Rightarrow>
                            (case build_tree r [] 0 of
                               Inl e \<Rightarrow> Inl e
                             | Inr tree \<Rightarrow>
                                 Inr \<lparr> metadata = md,
                                       languages = langs,
                                       file_tree = format_tree tree [],
                                       important_files =
                                         read_important decode r IMPORTANT_FILES [],
                                       existing_readme =
                                         find_readme decode r README_NAMES \<rparr>)))))"

text \<open>The words of the specification: depth of a tree and where \<open>children\<close> may stand.\<close>

fun tree_depth :: "tree_node list \<Rightarrow> nat" and node_depth :: "tree_node \<Rightarrow> nat" where
  "tree_depth [] = 0"
| "tree_depth (n # ns) = max (node_depth n) (tree_depth ns)"
| "node_depth (Node name ty path children) =
     Suc (case children of None \<Rightarrow> 0 | Some ch \<Rightarrow> tree_depth ch)"

text \<open>The nodes that lie \<open>k\<close> levels below the root; the nodes of the tree itself are at level 1.\<close>

fun nodes_at :: "nat \<Rightarrow> tree_node list \<Rightarrow> tree_node list" where
  "nodes_at 0 tree = []"
| "nodes_at (Suc 0) tree = tree"
| "nodes_at (Suc (Suc k)) tree =
     concat (map (\<lambda>n. case node_children n of None \<Rightarrow> [] | Some ch \<Rightarrow> nodes_at (Suc k) ch) tree)"

fun all_nodes :: "tree_node list \<Rightarrow> tree_node list" and sub_nodes :: "tree_node \<Rightarrow> tree_node list" where
  "all_nodes [] = []"
| "all_nodes (n # ns) = sub_nodes n @ all_nodes ns"
| "sub_nodes (Node name ty path children) =
     Node name ty path children # (case children of None \<Rightarrow> [] | Some ch \<Rightarrow> all_nodes ch)"

text \<open>
  A tree with at most \<open>k\<close> levels in which only \<open>dir\<close> nodes carry \<open>children\<close> and
  the nodes of the last level carry none.
\<close>

fun levels_ok :: "nat \<Rightarrow> tree_node list \<Rightarrow> bool" where
  "levels_ok 0 tree = (tree = [])"
| "levels_ok (Suc k) tree =
     list_all (\<lambda>n. case node_children n of
                      None \<Rightarrow> True
                    | Some ch \<Rightarrow> node_type n = ''dir'' \<and> k \<noteq> 0 \<and> levels_ok k ch) tree"

text \<open>Python's truth value of an optional string: \<open>None\<close> and \<open>""\<close> are falsy.\<close>

definition truthy :: "string option \<Rightarrow> bool" where
  "truthy x = (case x of None \<Rightarrow> False | Some s \<Rightarrow> s \<noteq> [])"

text \<open>The entry of \<open>important_files\<close> that one allow-listed path contributes, if any.\<close>

definition important_entry ::
  "(string \<Rightarrow> exn + string) \<Rightarrow> repo \<Rightarrow> string \<Rightarrow> (string \<times> string) option" where
  "important_entry decode r p =
     (case read_file_content decode r p of
        None \<Rightarrow> None
      | Some c \<Rightarrow> if c \<noteq> [] then Some (p, c) else None)"

text \<open>
  The paths that \<open>_build_tree\<close> may ask the remote to list, in the order of the
  traversal: the path of the call itself while the depth allows it, then the
  directories of its listing that are descended into. \<open>item_calls\<close> follows the loop.
\<close>

function listing_calls :: "repo \<Rightarrow> string \<Rightarrow> int \<Rightarrow> string list"
  and item_calls :: "repo \<Rightarrow> content_file list \<Rightarrow> int \<Rightarrow> string list"
where
  "listing_calls r path depth =
     (if depth \<ge> MAX_TREE_DEPTH then []
      else path # (case get_contents r path of
                     Inr (Listing items) \<Rightarrow> item_calls r items depth
                   | _ \<Rightarrow> []))"
| "item_calls r [] depth = []"
| "item_calls r (item # items) depth =
     (if cf_type item = ''dir'' \<and> depth < MAX_TREE_DEPTH - 1
      then listing_calls r (cf_path item) (depth + 1)
      else [])
     @ item_calls r items depth"
  by pat_completeness auto
termination
  by (relation "measures [\<lambda>x. case x of Inl (r, p, d) \<Rightarrow> nat (MAX_TREE_DEPTH - d)
                                       | Inr (r, items, d) \<Rightarrow> nat (MAX_TREE_DEPTH - d),
                          \<lambda>x. case x of Inl (r, p, d) \<Rightarrow> 1 | Inr (r, items, d) \<Rightarrow> 0,
                          \<lambda>x. case x of Inl (r, p, d) \<Rightarrow> 0 | Inr (r, items, d) \<Rightarrow> length items]")
    (auto simp: MAX_TREE_DEPTH_def)

text \<open>
  A listing call that \<open>_build_tree\<close> survives: the remote answers with a listing, or
  the call fails with the client's own exception.
\<close>

fun listing_or_api_error :: "exn + contents \<Rightarrow> bool" where
  "listing_or_api_error (Inr (Listing items)) = True"
| "listing_or_api_error (Inl (GithubException d m)) = True"
| "listing_or_api_error x = False"

section \<open>Prompt assembly and pipelines (\<open>agents.py\<close>)\<close>

text \<open>The style table. Each entry is the dict with \<open>name\<close>, \<open>description\<close> and \<open>instructions\<close>.\<close>

record style =
  style_name :: string
  style_description :: string
  style_instructions :: string

definition style_minimal :: style where
  \<open>style_minimal =
     \<lparr> style_name = ''Minimal'',
       style_description = ''Short and focused. Only essential sections: title, description, install, usage.'',
       style_instructions =
         ''\<newline>''
         @ ''## Style: MINIMAL\<newline>''
         @ ''- Keep it SHORT '' @ [CHR 0xE2, CHR 0x80, CHR 0x94] @ '' aim for under 80 lines.\<newline>''
         @ ''- Only include: Title, one-line Description, Quick Install, Basic Usage, License.\<newline>''
         @ ''- No badges, no project structure tree, no contributing section.\<newline>''
         @ ''- Prefer bullet points over paragraphs.\<newline>''
         @ ''- Skip acknowledgments and extras.\<newline>'' \<rparr>\<close>

definition style_detailed :: style where
  \<open>style_detailed =
     \<lparr> style_name = ''Detailed'',
       style_description = ''Comprehensive and professional. All standard sections included.'',
       style_instructions =
         ''\<newline>''
         @ ''## Style: DETAILED\<newline>''
         @ ''- Include ALL standard sections:\<newline>''
         @ ''  1. Title & Badges (shields.io)\<newline>''
         @ ''  2. Description (compelling, 2'' @ [CHR 0xE2, CHR 0x80, CHR 0x93] @ ''3 sentences)\<newline>''
         @ ''  3. Features (bullet list)\<newline>''
         @ ''  4. Tech Stack\<newline>''
         @ ''  5. Getting Started (prerequisites + installation)\<newline>''
         @ ''  6. Usage (with code examples)\<newline>''
         @ ''  7. Project Structure (directory tree)\<newline>''
         @ ''  8. Contributing guidelines\<newline>''
         @ ''  9. License\<newline>''
         @ ''  10. Acknowledgments (if applicable)\<newline>''
         @ ''- Be thorough but concise in each section.\<newline>'' \<rparr>\<close>

definition style_awesome :: style where
  \<open>style_awesome =
     \<lparr> style_name = ''Awesome'',
       style_description = ''Eye-catching with emojis, banners, and visual flair. Inspired by awesome-readme.'',
       style_instructions =
         ''\<newline>''
         @ ''## Style: AWESOME (Eye-catching)\<newline>''
         @ ''- Use emojis liberally in headers and bullets ('' @ [CHR 0xF0, CHR 0x9F, CHR 0x9A, CHR 0x80] @ '' '' @ [CHR 0xE2, CHR 0x9C, CHR 0xA8] @ '' '' @ [CHR 0xF0, CHR 0x9F, CHR 0x93, CHR 0xA6] @ '' '' @ [CHR 0xF0, CHR 0x9F, CHR 0x9B, CHR 0xA0, CHR 0xEF, CHR 0xB8, CHR 0x8F] @ '' '' @ [CHR 0xF0, CHR 0x9F, CHR 0x93, CHR 0x96] @ '' '' @ [CHR 0xF0, CHR 0x9F, CHR 0xA4, CHR 0x9D] @ '' '' @ [CHR 0xF0, CHR 0x9F, CHR 0x93, CHR 0x84] @ '' etc.)\<newline>''
         @ ''- Start with a centered banner section: centered H1, tagline, and badge row.\<newline>''
         @ ''- Include a Table of Contents with anchor links.\<newline>''
         @ ''- Use HTML where helpful (centered text, badge rows, collapsible sections).\<newline>''
         @ ''- Add a "Screenshots" or "Demo" section placeholder.\<newline>''
         @ ''- Include ALL sections from the "detailed" style PLUS:\<newline>''
         @ ''  - Table of Contents\<newline>''
         @ ''  - Demo/Screenshots section\<newline>''
         @ ''  - Roadmap section (infer from open issues/TODOs)\<newline>''
         @ ''  - Show some personality and energy in the writing.\<newline>''
         @ ''- Make it look like a top GitHub trending project README.\<newline>'' \<rparr>\<close>

definition STYLES :: "(string \<times> style) list" where
  "STYLES = [(''minimal'', style_minimal), (''detailed'', style_detailed), (''awesome'', style_awesome)]"

definition SYSTEM_PROMPT :: string where
  \<open>SYSTEM_PROMPT =
     ''You are an expert technical writer who creates professional, comprehensive README.md files for open-source projects.\<newline>''
     @ ''\<newline>''
     @ ''You will be given structured data about a GitHub repository (metadata, languages, file tree, config files, and an existing README if available). Use ALL of this information to generate a polished, production-quality README.\<newline>''
     @ ''\<newline>''
     @ ''{style_instructions}\<newline>''
     @ ''\<newline>''
     @ ''{custom_instructions_block}\<newline>''
     @ ''\<newline>''
     @ ''## Rules\<newline>''
     @ ''- Be concise but thorough.\<newline>''
     @ ''- Write in **Markdown** format.\<newline>''
     @ ''- Use code blocks for commands.\<newline>''
     @ ''- Do NOT invent features or dependencies that are not evident in the data.\<newline>''
     @ ''- If an existing README is provided, improve upon it rather than starting from scratch.\<newline>''
     @ ''- Output ONLY the README markdown '' @ [CHR 0xE2, CHR 0x80, CHR 0x94] @ '' no preamble, no explanation.\<newline>''\<close>

definition USER_TEMPLATE :: string where
  \<open>USER_TEMPLATE =
     ''Here is the repository data:\<newline>''
     @ ''\<newline>''
     @ ''### Metadata\<newline>''
     @ ''```json\<newline>''
     @ ''{metadata}\<newline>''
     @ ''```\<newline>''
     @ ''\<newline>''
     @ ''### Languages\<newline>''
     @ ''```json\<newline>''
     @ ''{languages}\<newline>''
     @ ''```\<newline>''
     @ ''\<newline>''
     @ ''### File Tree\<newline>''
     @ ''```\<newline>''
     @ ''{file_tree}\<newline>''
     @ ''```\<newline>''
     @ ''\<newline>''
     @ ''### Important Config Files\<newline>''
     @ ''{important_files}\<newline>''
     @ ''\<newline>''
     @ ''### Existing README\<newline>''
     @ ''{existing_readme}\<newline>''
     @ ''\<newline>''
     @ ''---\<newline>''
     @ ''Generate a professional README.md for this repository.\<newline>''\<close>

definition ANALYZE_SYSTEM_PROMPT :: string where
  \<open>ANALYZE_SYSTEM_PROMPT =
     ''You are a README quality analyst. You evaluate GitHub repository README files and provide a structured quality assessment.\<newline>''
     @ ''\<newline>''
     @ ''Analyze the given README against these criteria:\<newline>''
     @ ''1. **Clarity** (0-20): Is the project description clear and compelling?\<newline>''
     @ ''2. **Completeness** (0-20): Are all important sections present?\<newline>''
     @ ''3. **Installation** (0-20): Are setup/install instructions clear and complete?\<newline>''
     @ ''4. **Usage** (0-20): Are usage examples provided and helpful?\<newline>''
     @ ''5. **Presentation** (0-20): Good formatting, badges, structure?\<newline>''
     @ ''\<newline>''
     @ ''Expected sections: Title, Description, Installation, Usage, Features, Contributing, License, Tech Stack, Project Structure.\<newline>''
     @ ''\<newline>''
     @ ''You MUST respond with valid JSON only '' @ [CHR 0xE2, CHR 0x80, CHR 0x94] @ '' no markdown, no code fences, no explanation. Use this exact structure:\<newline>''
     @ ''{{"score": <0-100>, "summary": "<brief analysis>", "strengths": ["<strength1>", ...], "improvements": ["<suggestion1>", ...], "missing_sections": ["<section1>", ...]}}\<newline>''\<close>

definition ANALYZE_USER_TEMPLATE :: string where
  \<open>ANALYZE_USER_TEMPLATE =
     ''Repository: {repo_name}\<newline>''
     @ ''\<newline>''
     @ ''README content:\<newline>''
     @ ''```\<newline>''
     @ ''{existing_readme}\<newline>''
     @ ''```\<newline>''
     @ ''\<newline>''
     @ ''Repository metadata:\<newline>''
     @ ''```json\<newline>''
     @ ''{metadata}\<newline>''
     @ ''```\<newline>''
     @ ''\<newline>''
     @ ''Analyze this README and return JSON.\<newline>''\<close>

text \<open>
  Format strings, as \<open>str.format\<close> and the prompt templates read them: \<open>{{\<close> and
  \<open>}}\<close> are literal braces, \<open>{name}\<close> is a field, a single brace is a
  \<open>ValueError\<close>. A field is a plain name, as in all templates of the program; a
  missing name is a \<open>KeyError\<close>.
\<close>

datatype piece = Lit char | Field string

function parse_template :: "string \<Rightarrow> exn + piece list" where
  "parse_template [] = Inr []"
| "parse_template (c # cs) =
     (if c = CHR ''{'' then
        (case cs of
           [] \<Rightarrow> Inl (ValueError ''Single { encountered in format string'')
         | c' # rest \<Rightarrow>
             if c' = CHR ''{'' then
               (case parse_template rest of
                  Inl e \<Rightarrow> Inl e
                | Inr ps \<Rightarrow> Inr (Lit (CHR ''{'') # ps))
             else
               (case dropWhile (\<lambda>x. x \<noteq> CHR ''}'') cs of
                  [] \<Rightarrow> Inl (ValueError ''expected } before end of string'')
                | close # rest' \<Rightarrow>
                    (case parse_template rest' of
                       Inl e \<Rightarrow> Inl e
                     | Inr ps \<Rightarrow> Inr (Field (takeWhile (\<lambda>x. x \<noteq> CHR ''}'') cs) # ps))))
      else if c = CHR ''}'' then
        (case cs of
           [] \<Rightarrow> Inl (ValueError ''Single } encountered in format string'')
         | c' # rest \<Rightarrow>
             if c' = CHR ''}'' then
               (case parse_template rest of
                  Inl e \<Rightarrow> Inl e
                | Inr ps \<Rightarrow> Inr (Lit (CHR ''}'') # ps))
             else Inl (ValueError ''Single } encountered in format string''))
      else
        (case parse_template cs of
           Inl e \<Rightarrow> Inl e
         | Inr ps \<Rightarrow> Inr (Lit c # ps)))"
  by pat_completeness auto
termination
proof (relation "measure length")
  fix c :: char and cs c' rest close rest'
  assume "dropWhile (\<lambda>x. x \<noteq> CHR ''}'') cs = close # rest'"
  then have "length (close # rest') \<le> length cs"
    by (metis length_dropWhile_le)
  then show "(rest', c # cs) \<in> measure length" by simp
qed auto

fun render :: "(string \<times> string) list \<Rightarrow> piece list \<Rightarrow> exn + string" where
  "render vars [] = Inr []"
| "render vars (Lit c # ps) =
     (case render vars ps of Inl e \<Rightarrow> Inl e | Inr s \<Rightarrow> Inr (c # s))"
| "render vars (Field name # ps) =
     (case map_of vars name of
        None \<Rightarrow> Inl (OtherException (''KeyError: '' @ name))
      | Some v \<Rightarrow> (case render vars ps of Inl e \<Rightarrow> Inl e | Inr s \<Rightarrow> Inr (v @ s)))"

definition format_template :: "(string \<times> string) list \<Rightarrow> string \<Rightarrow> exn + string" where
  "format_template vars template =
     (case parse_template template of
        Inl e \<Rightarrow> Inl e
      | Inr ps \<Rightarrow> render vars ps)"

text \<open>\<open>_format_important_files\<close>\<close>

definition format_important_files :: "(string \<times> string) list \<Rightarrow> string" where
  "format_important_files files =
     (if files = [] then ''_No config files found._''
      else join ''\<newline>\<newline>''
             (map (\<lambda>(path, content). ''**'' @ path @ ''**\<newline>```\<newline>'' @ content
                                       @ ''\<newline>```'') files))"

text \<open>
  \<open>build_chain\<close>. The chain is the pair of message templates; building the prompt
  template parses both, so a malformed system prompt (possible only through the custom
  instructions) is a \<open>ValueError\<close> here. \<open>_get_llm\<close> only constructs the client
  of the completion service, which is part of the environment below.
\<close>

definition custom_instructions_block :: "string \<Rightarrow> string" where
  "custom_instructions_block custom_instructions =
     (if strip custom_instructions \<noteq> []
      then ''\<newline>## Custom Instructions from User\<newline>''
           @ ''Follow these additional instructions carefully:\<newline>''
           @ custom_instructions @ ''\<newline>''
      else [])"

definition build_chain :: "string \<Rightarrow> string \<Rightarrow> exn + string \<times> string" where
  "build_chain style custom_instructions =
     (let style_config = (case map_of STYLES style of Some c \<Rightarrow> c | None \<Rightarrow> style_detailed);
          style_instructions = style_instructions style_config
      in case format_template
                [(''style_instructions'', style_instructions),
                 (''custom_instructions_block'', custom_instructions_block custom_instructions)]
                SYSTEM_PROMPT of
           Inl e \<Rightarrow> Inl e
         | Inr system_prompt \<Rightarrow>
             (case parse_template system_prompt of
                Inl e \<Rightarrow> Inl e
              | Inr ps \<Rightarrow>
                  (case parse_template USER_TEMPLATE of
                     Inl e \<Rightarrow> Inl e
                   | Inr qs \<Rightarrow> Inr (system_prompt, USER_TEMPLATE))))"

text \<open>
  The environment of the pipelines: the completion service (\<open>env_llm system human\<close> is the
  text of its answer), \<open>json.dumps(..., indent=2)\<close> on the two dicts of the digest, the
  JSON output parser, and the field validation of the response model (\<open>int\<close>,
  \<open>str\<close>, \<open>list[str]\<close>), together with the remote client, the content decoder and
  the configured token.
\<close>

datatype json =
    JNull
  | JBool bool
  | JInt int
  | JFloat string
  | JStr string
  | JList "json list"
  | JDict "(string \<times> json) list"

record env =
  env_llm :: "string \<Rightarrow> string \<Rightarrow> exn + string"
  json_dumps_metadata :: "metadata \<Rightarrow> string"
  json_dumps_languages :: "(string \<times> int) list \<Rightarrow> string"
  json_output_parser :: "string \<Rightarrow> exn + json"
  validate_int :: "json \<Rightarrow> int option"
  validate_str :: "json \<Rightarrow> string option"
  validate_str_list :: "json \<Rightarrow> string list option"
  env_github :: "string option \<Rightarrow> string \<Rightarrow> exn + repo"
  env_decode :: "string \<Rightarrow> exn + string"
  settings_github_token :: string

text \<open>Invoking a chain formats the system and the human message with the variables.\<close>

definition format_messages ::
  "(string \<times> string) list \<Rightarrow> string \<times> string \<Rightarrow> exn + string \<times> string" where
  "format_messages vars chain =
     (case format_template vars (fst chain) of
        Inl e \<Rightarrow> Inl e
      | Inr system \<Rightarrow>
          (case format_template vars (snd chain) of
             Inl e \<Rightarrow> Inl e
           | Inr human \<Rightarrow> Inr (system, human)))"

text \<open>
  The generation prompt of \<open>generate_readme\<close>: the chain of \<open>build_chain\<close>, formatted
  with the five variables of the digest.
\<close>

definition generation_vars :: "env \<Rightarrow> digest \<Rightarrow> (string \<times> string) list" where
  "generation_vars ev repo_data =
     [(''metadata'', json_dumps_metadata ev (metadata repo_data)),
      (''languages'', json_dumps_languages ev (languages repo_data)),
      (''file_tree'', if file_tree repo_data \<noteq> [] then file_tree repo_data
                      else ''No file tree available''),
      (''important_files'', format_important_files (important_files repo_data)),
      (''existing_readme'', or_default (existing_readme repo_data) ''_No existing README found._'')]"

definition generation_prompt ::
  "env \<Rightarrow> digest \<Rightarrow> string \<Rightarrow> string \<Rightarrow> exn + string \<times> string" where
  "generation_prompt ev repo_data style custom_instructions =
     (case build_chain style custom_instructions of
        Inl e \<Rightarrow> Inl e
      | Inr chain \<Rightarrow> format_messages (generation_vars ev repo_data) chain)"

text \<open>
  \<open>generate_readme\<close>. The second component is the list of prompts sent to the
  completion service.
\<close>

definition generate_readme ::
  "env \<Rightarrow> digest \<Rightarrow> string \<Rightarrow> string \<Rightarrow> (exn + string) \<times> (string \<times> string) list" where
  "generate_readme ev repo_data style custom_instructions =
     (case generation_prompt ev repo_data style custom_instructions of
        Inl e \<Rightarrow> (Inl e, [])
      | Inr (system, human) \<Rightarrow>
          (case env_llm ev system human of
             Inl e \<Rightarrow> (Inl e, [(system, human)])
           | Inr result \<Rightarrow> (Inr (strip result), [(system, human)])))"

text \<open>\<open>analyze_readme\<close>: the rubric prompt, the completion, the JSON parser.\<close>

definition analysis_vars :: "env \<Rightarrow> digest \<Rightarrow> (string \<times> string) list" where
  "analysis_vars ev repo_data =
     [(''repo_name'', md_full_name (metadata repo_data)),
      (''existing_readme'', or_default (existing_readme repo_data) ''_No README found._''),
      (''metadata'', json_dumps_metadata ev (metadata repo_data))]"

definition analysis_prompt :: "env \<Rightarrow> digest \<Rightarrow> exn + string \<times> string" where
  "analysis_prompt ev repo_data =
     format_messages (analysis_vars ev repo_data) (ANALYZE_SYSTEM_PROMPT, ANALYZE_USER_TEMPLATE)"

definition analyze_readme ::
  "env \<Rightarrow> digest \<Rightarrow> (exn + json) \<times> (string \<times> string) list" where
  "analyze_readme ev repo_data =
     (case analysis_prompt ev repo_data of
        Inl e \<Rightarrow> (Inl e, [])
      | Inr (system, human) \<Rightarrow>
          (case env_llm ev system human of
             Inl e \<Rightarrow> (Inl e, [(system, human)])
           | Inr text \<Rightarrow>
               (case json_output_parser ev text of
                  Inl e \<Rightarrow> (Inl e, [(system, human)])
                | Inr result \<Rightarrow> (Inr result, [(system, human)]))))"

section \<open>The analysis endpoint (\<open>app.py\<close>, \<open>models.py\<close>)\<close>

record analyze_request =
  req_repo_url :: string
  req_github_token :: "string option"

record analyze_response =
  score :: int
  summary :: string
  strengths :: "string list"
  improvements :: "string list"
  missing_sections :: "string list"
  repo_name :: string

text \<open>\<open>analysis.get(key, default)\<close>: only a dict has \<open>get\<close>.\<close>

definition dict_get :: "json \<Rightarrow> string \<Rightarrow> json \<Rightarrow> exn + json" where
  "dict_get analysis key dflt =
     (case analysis of
        JDict kvs \<Rightarrow> Inr (case map_of kvs key of Some v \<Rightarrow> v | None \<Rightarrow> dflt)
      | _ \<Rightarrow> Inl (OtherException ''AttributeError: object has no attribute get''))"

text \<open>
  The construction of \<open>AnalyzeResponse\<close>: the five lookups, then the validation of
  the model, whose error is a \<open>ValueError\<close>.
\<close>

definition make_response :: "env \<Rightarrow> json \<Rightarrow> string \<Rightarrow> exn + analyze_response" where
  "make_response ev analysis name =
     (case dict_get analysis ''score'' (JInt 0) of Inl e \<Rightarrow> Inl e | Inr sc \<Rightarrow>
      case dict_get analysis ''summary'' (JStr []) of Inl e \<Rightarrow> Inl e | Inr su \<Rightarrow>
      case dict_get analysis ''strengths'' (JList []) of Inl e \<Rightarrow> Inl e | Inr st \<Rightarrow>
      case dict_get analysis ''improvements'' (JList []) of Inl e \<Rightarrow> Inl e | Inr im \<Rightarrow>
      case dict_get analysis ''missing_sections'' (JList []) of Inl e \<Rightarrow> Inl e | Inr ms \<Rightarrow>
        (case (validate_int ev sc, validate_str ev su, validate_str_list ev st,
               validate_str_list ev im, validate_str_list ev ms) of
           (Some sc', Some su', Some st', Some im', Some ms') \<Rightarrow>
             Inr \<lparr> score = sc', summary = su', strengths = st', improvements = im',
                   missing_sections = ms', repo_name = name \<rparr>
         | _ \<Rightarrow> Inl (ValueError ''validation error for AnalyzeResponse'')))"

text \<open>\<open>str(e)\<close> and the two handlers of the endpoint.\<close>

fun exn_str :: "exn \<Rightarrow> string" where
  "exn_str (ValueError m) = m"
| "exn_str (GithubException d m) = m"
| "exn_str (HTTPException code detail) = detail"
| "exn_str (OtherException m) = m"

fun analyze_handler :: "exn \<Rightarrow> exn" where
  "analyze_handler (ValueError m) = HTTPException 400 m"
| "analyze_handler e = HTTPException 500 (''Failed to analyze README: '' @ exn_str e)"

definition analyze ::
  "env \<Rightarrow> analyze_request \<Rightarrow> (exn + analyze_response) \<times> (string \<times> string) list" where
  "analyze ev request =
     (let token = or_default (req_github_token request) (settings_github_token ev)
      in case fetch_repo_data (env_github ev) (env_decode ev) (req_repo_url request) token of
           Inl e \<Rightarrow> (Inl (analyze_handler e), [])
         | Inr repo_data \<Rightarrow>
             (let name = md_full_name (metadata repo_data)
              in if \<not> truthy (existing_readme repo_data)
                 then (Inl (analyze_handler
                              (ValueError (''No existing README found in '' @ name
                                             @ ''. Nothing to analyze.''))), [])
                 else (case analyze_readme ev repo_data of
                         (Inl e, calls) \<Rightarrow> (Inl (analyze_handler e), calls)
                       | (Inr analysis, calls) \<Rightarrow>
                           (case make_response ev analysis name of
                              Inl e \<Rightarrow> (Inl (analyze_handler e), calls)
                            | Inr response \<Rightarrow> (Inr response, calls)))))"

text \<open>The words of the specification: one string contains another.\<close>

definition contains :: "string \<Rightarrow> string \<Rightarrow> bool" where
  "contains s x = (\<exists>pre post. s = pre @ x @ post)"

text \<open>
  The literal text of the four templates between their fields and escaped braces; the
  lemmas on formatting split each template along them.
\<close>

definition brace_free :: "string \<Rightarrow> bool" where
  "brace_free s = (CHR ''{'' \<notin> set s \<and> CHR ''}'' \<notin> set s)"

definition field :: "string \<Rightarrow> string" where
  "field name = CHR ''{'' # name @ ''}''"

definition system_text_0 :: string where
  \<open>system_text_0 =
     ''You are an expert technical writer who creates professional, comprehensive README.md files for open-source projects.\<newline>''
     @ ''\<newline>''
     @ ''You will be given structured data about a GitHub repository (metadata, languages, file tree, config files, and an existing README if available). Use ALL of this information to generate a polished, production-quality README.\<newline>''
     @ ''\<newline>''\<close>

definition system_text_1 :: string where
  \<open>system_text_1 =
     ''\<newline>''
     @ ''\<newline>''\<close>

definition system_text_2 :: string where
  \<open>system_text_2 =
     ''\<newline>''
     @ ''\<newline>''
     @ ''## Rules\<newline>''
     @ ''- Be concise but thorough.\<newline>''
     @ ''- Write in **Markdown** format.\<newline>''
     @ ''- Use code blocks for commands.\<newline>''
     @ ''- Do NOT invent features or dependencies that are not evident in the data.\<newline>''
     @ ''- If an existing README is provided, improve upon it rather than starting from scratch.\<newline>''
     @ ''- Output ONLY the README markdown '' @ [CHR 0xE2, CHR 0x80, CHR 0x94] @ '' no preamble, no explanation.\<newline>''\<close>

definition user_text_0 :: string where
  \<open>user_text_0 =
     ''Here is the repository data:\<newline>''
     @ ''\<newline>''
     @ ''### Metadata\<newline>''
     @ ''```json\<newline>''\<close>

definition user_text_1 :: string where
  \<open>user_text_1 =
     ''\<newline>''
     @ ''```\<newline>''
     @ ''\<newline>''
     @ ''### Languages\<newline>''
     @ ''```json\<newline>''\<close>

definition user_text_2 :: string where
  \<open>user_text_2 =
     ''\<newline>''
     @ ''```\<newline>''
     @ ''\<newline>''
     @ ''### File Tree\<newline>''
     @ ''```\<newline>''\<close>

definition user_text_3 :: string where
  \<open>user_text_3 =
     ''\<newline>''
     @ ''```\<newline>''
     @ ''\<newline>''
     @ ''### Important Config Files\<newline>''\<close>

definition user_text_4 :: string where
  \<open>user_text_4 =
     ''\<newline>''
     @ ''\<newline>''
     @ ''### Existing README\<newline>''\<close>

definition user_text_5 :: string where
  \<open>user_text_5 =
     ''\<newline>''
     @ ''\<newline>''
     @ ''---\<newline>''
     @ ''Generate a professional README.md for this repository.\<newline>''\<close>

definition analyze_system_text_0 :: string where
  \<open>analyze_system_text_0 =
     ''You are a README quality analyst. You evaluate GitHub repository README files and provide a structured quality assessment.\<newline>''
     @ ''\<newline>''
     @ ''Analyze the given README against these criteria:\<newline>''
     @ ''1. **Clarity** (0-20): Is the project description clear and compelling?\<newline>''
     @ ''2. **Completeness** (0-20): Are all important sections present?\<newline>''
     @ ''3. **Installation** (0-20): Are setup/install instructions clear and complete?\<newline>''
     @ ''4. **Usage** (0-20): Are usage examples provided and helpful?\<newline>''
     @ ''5. **Presentation** (0-20): Good formatting, badges, structure?\<newline>''
     @ ''\<newline>''
     @ ''Expected sections: Title, Description, Installation, Usage, Features, Contributing, License, Tech Stack, Project Structure.\<newline>''
     @ ''\<newline>''
     @ ''You MUST respond with valid JSON only '' @ [CHR 0xE2, CHR 0x80, CHR 0x94] @ '' no markdown, no code fences, no explanation. Use this exact structure:\<newline>''\<close>

definition analyze_system_text_1 :: string where
  \<open>analyze_system_text_1 =
     ''"score": <0-100>, "summary": "<brief analysis>", "strengths": ["<strength1>", ...], "improvements": ["<suggestion1>", ...], "missing_sections": ["<section1>", ...]''\<close>

definition analyze_system_text_2 :: string where
  \<open>analyze_system_text_2 =
     ''\<newline>''\<close>

definition analyze_user_text_0 :: string where
  \<open>analyze_user_text_0 =
     ''Repository: ''\<close>

definition analyze_user_text_1 :: string where
  \<open>analyze_user_text_1 =
     ''\<newline>''
     @ ''\<newline>''
     @ ''README content:\<newline>''
     @ ''```\<newline>''\<close>

definition analyze_user_text_2 :: string where
  \<open>analyze_user_text_2 =
     ''\<newline>''
     @ ''```\<newline>''
     @ ''\<newline>''
     @ ''Repository metadata:\<newline>''
     @ ''```json\<newline>''\<close>

definition analyze_user_text_3 :: string where
  \<open>analyze_user_text_3 =
     ''\<newline>''
     @ ''```\<newline>''
     @ ''\<newline>''
     @ ''Analyze this README and return JSON.\<newline>''\<close>

section \<open>A repository for the worked examples\<close>

text \<open>
  A small remote repository: an empty \<open>README.md\<close> beside a \<open>README.rst\<close>, a
  package file, a build file that decodes to nothing, a license whose content does not
  decode, and a directory chain \<open>src/app/core/deep\<close> that is deeper
  than the tree may go. Every other path is not found.
\<close>

definition not_found :: exn where
  "not_found = GithubException (DataDict (Some ''Not Found'')) ''404 Not Found''"

definition entry :: "string \<Rightarrow> string \<Rightarrow> string \<Rightarrow> content_file" where
  "entry name ty path =
     \<lparr> cf_name = name, cf_type = ty, cf_path = path, cf_encoding = [], cf_content = None \<rparr>"

definition blob :: "string \<Rightarrow> string \<Rightarrow> string \<Rightarrow> content_file" where
  "blob name path content =
     \<lparr> cf_name = name, cf_type = ''file'', cf_path = path, cf_encoding = ''base64'',
       cf_content = Some content \<rparr>"

definition demo_contents :: "string \<Rightarrow> exn + contents" where
  "demo_contents path =
     (if path = [] then
        Inr (Listing [entry ''README.md'' ''file'' ''README.md'',
                      entry ''README.rst'' ''file'' ''README.rst'',
                      entry ''Makefile'' ''file'' ''Makefile'',
                      entry ''LICENSE'' ''file'' ''LICENSE'',
                      entry ''package.json'' ''file'' ''package.json'',
                      entry ''src'' ''dir'' ''src''])
      else if path = ''src'' then
        Inr (Listing [entry ''app'' ''dir'' ''src/app'', entry ''main.py'' ''file'' ''src/main.py''])
      else if path = ''src/app'' then
        Inr (Listing [entry ''core'' ''dir'' ''src/app/core''])
      else if path = ''src/app/core'' then
        Inr (Listing [entry ''deep'' ''dir'' ''src/app/core/deep''])
      else if path = ''README.md'' then Inr (Single (blob ''README.md'' ''README.md'' []))
      else if path = ''README.rst'' then
        Inr (Single (blob ''README.rst'' ''README.rst'' ''SGVsbG8=''))
      else if path = ''Makefile'' then Inr (Single (blob ''Makefile'' ''Makefile'' ''\<newline>''))
      else if path = ''LICENSE'' then Inr (Single (blob ''LICENSE'' ''LICENSE'' ''!''))
      else if path = ''package.json'' then
        Inr (Single (blob ''package.json'' ''package.json'' ''e30=''))
      else Inl not_found)"

definition demo_decode :: "string \<Rightarrow> exn + string" where
  "demo_decode content =
     (if content = ''SGVsbG8='' then Inr ''Hello''
      else if content = ''e30='' then Inr ''{}''
      else if content = ''\<newline>'' then Inr []
      else Inl (OtherException ''binascii.Error: Incorrect padding''))"

definition demo_repo :: repo where
  "demo_repo =
     \<lparr> repo_full_name = ''octocat/Hello-World'',
       repo_name = ''Hello-World'',
       repo_description = None,
       repo_homepage = Some [],
       repo_stargazers_count = 42,
       repo_forks_count = 7,
       repo_open_issues_count = 1,
       repo_subscribers_count = 3,
       repo_default_branch = ''main'',
       repo_license = None,
       repo_created_at = ''2011-01-26 19:01:12+00:00'',
       repo_updated_at = ''2024-01-01 00:00:00+00:00'',
       repo_fork = False,
       repo_html_url = ''https://github.com/octocat/Hello-World'',
       get_topics = Inr [''demo''],
       get_languages = Inr [(''Python'', 1234)],
       get_contents = demo_contents \<rparr>"

definition demo_tree :: "tree_node list" where
  "demo_tree =
     [Node ''README.md'' ''file'' ''README.md'' None,
      Node ''README.rst'' ''file'' ''README.rst'' None,
      Node ''Makefile'' ''file'' ''Makefile'' None,
      Node ''LICENSE'' ''file'' ''LICENSE'' None,
      Node ''package.json'' ''file'' ''package.json'' None,
      Node ''src'' ''dir'' ''src''
        (Some [Node ''app'' ''dir'' ''src/app''
                 (Some [Node ''core'' ''dir'' ''src/app/core'' None]),
               Node ''main.py'' ''file'' ''src/main.py'' None])]"

definition demo_github :: "string option \<Rightarrow> string \<Rightarrow> exn + repo" where
  "demo_github auth full_name =
     (if full_name = ''octocat/Hello-World'' then Inr demo_repo else Inl not_found)"

text \<open>The same repository at a moment when the topics call is refused.\<close>

definition rate_limited :: exn where
  "rate_limited = GithubException (DataDict (Some ''API rate limit exceeded'')) ''403 Forbidden''"

definition flaky_repo :: repo where
  "flaky_repo = demo_repo \<lparr> get_topics := Inl rate_limited \<rparr>"

definition flaky_github :: "string option \<Rightarrow> string \<Rightarrow> exn + repo" where
  "flaky_github auth full_name =
     (if full_name = ''octocat/Hello-World'' then Inr flaky_repo else Inl not_found)"

text \<open>A repository none of whose paths can be listed or read.\<close>

definition dark_repo :: repo where
  "dark_repo = demo_repo \<lparr> get_contents := (\<lambda>path. Inl rate_limited) \<rparr>"

definition dark_github :: "string option \<Rightarrow> string \<Rightarrow> exn + repo" where
  "dark_github auth full_name =
     (if full_name = ''octocat/Hello-World'' then Inr dark_repo else Inl not_found)"

text \<open>
  An environment around the example repository: a completion service with a fixed
  answer, a parser that knows that answer, and a validation that accepts exactly the
  declared types.
\<close>

definition demo_completion :: string where
  \<open>demo_completion = ''{"score": 80, "summary": "ok"}''\<close>

definition demo_parser :: "string \<Rightarrow> exn + json" where
  "demo_parser text =
     (if text = demo_completion then Inr (JDict [(''score'', JInt 80), (''summary'', JStr ''ok'')])
      else Inl (ValueError (''Invalid json output: '' @ text)))"

fun strict_int :: "json \<Rightarrow> int option" where
  "strict_int (JInt n) = Some n"
| "strict_int v = None"

fun strict_str :: "json \<Rightarrow> string option" where
  "strict_str (JStr s) = Some s"
| "strict_str v = None"

fun strict_strs :: "json list \<Rightarrow> string list option" where
  "strict_strs [] = Some []"
| "strict_strs (v # vs) =
     (case (strict_str v, strict_strs vs) of (Some s, Some ss) \<Rightarrow> Some (s # ss) | _ \<Rightarrow> None)"

fun strict_str_list :: "json \<Rightarrow> string list option" where
  "strict_str_list (JList vs) = strict_strs vs"
| "strict_str_list v = None"

definition demo_env :: env where
  "demo_env =
     \<lparr> env_llm = (\<lambda>system human. Inr demo_completion),
       json_dumps_metadata = (\<lambda>m. ''{ full_name: '' @ md_full_name m @ '' }''),
       json_dumps_languages = (\<lambda>l. ''{}''),
       json_output_parser = demo_parser,
       validate_int = strict_int,
       validate_str = strict_str,
       validate_str_list = strict_str_list,
       env_github = demo_github,
       env_decode = demo_decode,
       settings_github_token = [] \<rparr>"

text \<open>The same, with a completion service that answers in prose.\<close>

definition chatty_env :: env where
  "chatty_env = demo_env \<lparr> env_llm := (\<lambda>system human. Inr ''Sure! Here is my analysis.'') \<rparr>"

text \<open>The same, over the repository that cannot be read: its digest has no README.\<close>

definition dark_env :: env where
  "dark_env = demo_env \<lparr> env_github := dark_github \<rparr>"

definition demo_request :: analyze_request where
  "demo_request = \<lparr> req_repo_url = ''octocat/Hello-World'', req_github_token = None \<rparr>"

text \<open>A digest without README, as the aggregation of the unreadable repository gives it.\<close>

definition bare_digest :: digest where
  "bare_digest =
     \<lparr> metadata =
         \<lparr> md_full_name = ''octocat/Hello-World'', md_name = ''Hello-World'',
           md_description = ''No description provided'', md_homepage = [],
           md_stars = 42, md_forks = 7, md_open_issues = 1, md_watchers = 3,
           md_default_branch = ''main'', md_license = ''Not specified'',
           md_topics = [''demo''], md_created_at = ''2011-01-26 19:01:12+00:00'',
           md_updated_at = ''2024-01-01 00:00:00+00:00'', md_is_fork = False,
           md_html_url = ''https://github.com/octocat/Hello-World'' \<rparr>,
       languages = [(''Python'', 1234)],
       file_tree = [],
       important_files = [],
       existing_readme = None \<rparr>"

text \<open>A moment without network: every call for contents ends in a transport error.\<close>

definition connection_error :: exn where
  "connection_error = OtherException ''ConnectionError: Max retries exceeded''"

definition offline_repo :: repo where
  "offline_repo = demo_repo \<lparr> get_contents := (\<lambda>path. Inl connection_error) \<rparr>"

definition offline_github :: "string option \<Rightarrow> string \<Rightarrow> exn + repo" where
  "offline_github auth full_name =
     (if full_name = ''octocat/Hello-World'' then Inr offline_repo else Inl not_found)"

text \<open>The example repository with one call that times out: a listing, or a file read.\<close>

definition read_timeout :: exn where
  "read_timeout = OtherException ''ReadTimeout: read timed out''"

definition timeout_at :: "string \<Rightarrow> repo" where
  "timeout_at p =
     demo_repo \<lparr> get_contents := (\<lambda>path. if path = p then Inl read_timeout
                                         else demo_contents path) \<rparr>"

definition timeout_github :: "string \<Rightarrow> string option \<Rightarrow> string \<Rightarrow> exn + repo" where
  "timeout_github p auth full_name =
     (if full_name = ''octocat/Hello-World'' then Inr (timeout_at p) else Inl not_found)"

text \<open>A gateway that answers \<open>get_repo\<close> with an error whose body is not JSON.\<close>

definition gateway_github :: "string option \<Rightarrow> string \<Rightarrow> exn + repo" where
  "gateway_github auth full_name = Inl (GithubException DataOther ''502 None'')"

text \<open>
  Three more answers of the completion service, with what the output parser makes of
  them: an array; an object cut off before its closing brace, which the parser
  completes; an object whose score is a word.
\<close>

definition array_completion :: string where
  "array_completion = ''[1, 2]''"

definition truncated_completion :: string where
  \<open>truncated_completion = ''{"score": 80''\<close>

definition worded_completion :: string where
  \<open>worded_completion = ''{"score": "high"}''\<close>

definition lenient_parser :: "string \<Rightarrow> exn + json" where
  "lenient_parser text =
     (if text = array_completion then Inr (JList [JInt 1, JInt 2])
      else if text = truncated_completion then Inr (JDict [(''score'', JInt 80)])
      else if text = worded_completion then Inr (JDict [(''score'', JStr ''high'')])
      else demo_parser text)"

definition answering :: "string \<Rightarrow> env" where
  "answering completion =
     demo_env \<lparr> env_llm := (\<lambda>system human. Inr completion),
                json_output_parser := lenient_parser \<rparr>"

section \<open>Properties of the URL normalizer\<close>


lemma dropWhile_skip: "\<forall>x\<in>set xs. P x \<Longrightarrow> \<not> P y \<Longrightarrow> dropWhile P (xs @ y # ys) = y # ys"
  by (induction xs) auto

lemma takeWhile_stop: "\<forall>x\<in>set xs. P x \<Longrightarrow> \<not> P y \<Longrightarrow> takeWhile P (xs @ y # ys) = xs"
  by (induction xs) auto

lemma strip_core:
  assumes "core \<noteq> []" "\<not> isspace (hd core)" "\<not> isspace (last core)"
    "\<forall>c\<in>set ws1. isspace c" "\<forall>c\<in>set ws2. isspace c"
  shows "strip (ws1 @ core @ ws2) = core"
proof -
  obtain a as where c1: "core = a # as" using assms(1) by (cases core) auto
  obtain b bs where c2: "core = bs @ [b]" using assms(1) by (cases core rule: rev_cases) auto
  have l: "lstrip (ws1 @ core @ ws2) = core @ ws2"
    using assms c1 by (simp add: lstrip_def dropWhile_skip)
  have "dropWhile isspace (rev ws2 @ b # rev bs) = b # rev bs"
    using assms c2 by (intro dropWhile_skip) auto
  then show ?thesis
    using l by (simp add: strip_def rstrip_def c2)
qed

lemma rstrip_slash_replicate:
  assumes "body \<noteq> []" "last body \<noteq> CHR ''/''"
  shows "rstrip_slash (body @ replicate n (CHR ''/'')) = body"
proof -
  obtain b bs where c2: "body = bs @ [b]" using assms(1) by (cases body rule: rev_cases) auto
  have "dropWhile (\<lambda>c. c = CHR ''/'') (replicate n (CHR ''/'') @ b # rev bs) = b # rev bs"
    using assms c2 by (intro dropWhile_skip) auto
  then show ?thesis
    by (simp add: rstrip_slash_def c2)
qed

lemma endswith_append: "endswith (xs @ p) p"
  by (simp add: endswith_def)

lemma endswith_suffix: "endswith s p = suffix p s"
  by (auto simp: endswith_def suffix_def) (metis append_take_drop_id)

lemma endswith_git_after_slash:
  assumes "CHR ''/'' \<notin> set r"
  shows "endswith (xs @ ''/'' @ r) ''.git'' = endswith r ''.git''"
proof
  assume "endswith (xs @ ''/'' @ r) ''.git''"
  then have "suffix ''.git'' ((xs @ ''/'') @ r)" by (simp add: endswith_suffix)
  then have "suffix ''.git'' r \<or> (\<exists>ys. ''.git'' = ys @ r \<and> suffix ys (xs @ ''/'') \<and> ys \<noteq> [])"
    unfolding suffix_append by (metis suffix_bot.extremum append.left_neutral suffix_order.eq_iff) 
  then show "endswith r ''.git''"
  proof
    assume "suffix ''.git'' r" then show ?thesis by (simp add: endswith_suffix)
  next
    assume "\<exists>ys. ''.git'' = ys @ r \<and> suffix ys (xs @ ''/'') \<and> ys \<noteq> []"
    then obtain ys where ys: "''.git'' = ys @ r" "suffix ys (xs @ ''/'')" "ys \<noteq> []" by blast
    then have "last ys = CHR ''/''" by (auto simp: suffix_def) (metis last_appendR last_snoc)
    then have "CHR ''/'' \<in> set ys" using ys(3) last_in_set by metis
    then have "CHR ''/'' \<in> set ''.git''" unfolding ys(1) by simp
    then show ?thesis by simp
  qed
next
  assume "endswith r ''.git''"
  then show "endswith (xs @ ''/'' @ r) ''.git''"
    by (auto simp: endswith_suffix suffix_def)
qed

lemma owner_repo_at_pair:
  assumes "owner \<noteq> []" "repo \<noteq> []" "CHR ''/'' \<notin> set owner" "CHR ''/'' \<notin> set repo"
  shows "owner_repo_at (owner @ ''/'' @ repo) = Some (owner @ ''/'' @ repo)"
proof -
  have t: "takeWhile (\<lambda>c. c \<noteq> CHR ''/'') (owner @ CHR ''/'' # repo) = owner"
    using assms by (intro takeWhile_stop) auto
  have d: "dropWhile (\<lambda>c. c \<noteq> CHR ''/'') (owner @ CHR ''/'' # repo) = CHR ''/'' # repo"
    using assms by (intro dropWhile_skip) auto
  have r: "takeWhile (\<lambda>c. c \<noteq> CHR ''/'') repo = repo"
    using assms by (auto simp: takeWhile_eq_all_conv)
  show ?thesis using assms by (simp add: owner_repo_at_def t d r)
qed

lemma owner_repo_at_Some:
  assumes "owner_repo_at s = Some m"
  shows "\<exists>owner repo rest. owner \<noteq> [] \<and> repo \<noteq> [] \<and> CHR ''/'' \<notin> set owner \<and> CHR ''/'' \<notin> set repo
           \<and> m = owner @ ''/'' @ repo \<and> s = m @ rest"
proof -
  let ?P = "\<lambda>c. c \<noteq> CHR ''/''"
  let ?o = "takeWhile ?P s"
  from assms have o: "?o \<noteq> []" by (auto simp: owner_repo_at_def Let_def split: if_splits)
  from assms obtain c t where d: "dropWhile ?P s = c # t"
    by (auto simp: owner_repo_at_def Let_def split: if_splits list.splits)
  let ?r = "takeWhile ?P t"
  from assms d have r: "?r \<noteq> []" and m: "m = ?o @ ''/'' @ ?r"
    by (auto simp: owner_repo_at_def Let_def split: if_splits)
  have c: "c = CHR ''/''" using d hd_dropWhile[of ?P s] by auto
  have "s = ?o @ dropWhile ?P s" by simp
  also have "\<dots> = ?o @ CHR ''/'' # (?r @ dropWhile ?P t)" by (simp add: d c)
  finally have s: "s = m @ dropWhile ?P t" by (simp add: m)
  have "CHR ''/'' \<notin> set ?o" "CHR ''/'' \<notin> set ?r"
    by (auto dest: set_takeWhileD)
  with o r m s show ?thesis by blast
qed

lemma owner_repo_at_no_slash: "CHR ''/'' \<notin> set s \<Longrightarrow> owner_repo_at s = None"
  using owner_repo_at_Some[of s] by (cases "owner_repo_at s") auto


lemma isspace_literals [simp]:
  "\<not> isspace (CHR ''h'')" "\<not> isspace (CHR ''g'')" "\<not> isspace (CHR ''t'')" "\<not> isspace (CHR ''/'')"
  by (simp_all add: isspace_def)

lemma clean_url_accepted:
  assumes o: "name_part owner" and r: "name_part repo"
    and pre: "pre \<in> {''https://github.com/'', ''http://github.com/'', ''github.com/'', []}"
    and suf: "suf \<in> {[], ''.git''}"
    and git: "suf = [] \<longrightarrow> \<not> endswith repo ''.git''"
    and ws: "\<forall>c\<in>set ws1. isspace c" "\<forall>c\<in>set ws2. isspace c"
  shows "clean_url (ws1 @ (pre @ owner @ ''/'' @ repo @ suf) @ replicate n (CHR ''/'') @ ws2)
           = pre @ owner @ ''/'' @ repo"
proof -
  let ?body = "pre @ owner @ ''/'' @ repo @ suf"
  let ?core = "?body @ replicate n (CHR ''/'')"
  have ne: "owner \<noteq> []" "repo \<noteq> []" using o r by (simp_all add: name_part_def)
  have hd_body: "\<not> isspace (hd ?body)"
    using pre o ne by (auto simp: name_part_def)
  have lr: "last repo \<noteq> CHR ''/''"
    using r by (metis last_in_set name_part_def)
  have last_body: "\<not> isspace (last ?body)" "last ?body \<noteq> CHR ''/''"
    using suf r ne lr by (auto simp: name_part_def)
  have body_ne: "?body \<noteq> []" by simp
  have hd_core: "\<not> isspace (hd ?core)" using hd_body body_ne by (simp only: hd_append2 not_False_eq_True)
  have last_core: "\<not> isspace (last ?core)"
    using last_body by (cases n) (simp_all only: replicate.simps append_Nil2 last_append, simp_all)
  have "strip (ws1 @ ?core @ ws2) = ?core"
    using hd_core last_core ws by (intro strip_core) simp_all
  then have s: "strip (ws1 @ ?body @ replicate n (CHR ''/'') @ ws2) = ?core" by simp
  have rs: "rstrip_slash ?core = ?body"
    using last_body by (intro rstrip_slash_replicate) simp_all
  have e: "endswith ?body ''.git'' = (suf = ''.git'')"
  proof (cases "suf = []")
    case True
    then show ?thesis using git r endswith_git_after_slash[of repo "pre @ owner"]
      by (simp add: name_part_def)
  next
    case False
    then have "suf = ''.git''" using suf by simp
    then show ?thesis using endswith_append[of "pre @ owner @ ''/'' @ repo" "''.git''"] by simp
  qed
  show ?thesis
    unfolding clean_url_def s rs Let_def e using suf by auto
qed


lemma startswith_append: "startswith (p @ s) p"
  by (simp add: startswith_def)

lemma startswith_split: "startswith s p \<Longrightarrow> s = p @ drop (length p) s"
  by (metis append_take_drop_id startswith_def)

lemma match_full_url_prefixed:
  assumes "name_part owner" "name_part repo"
    and "pre \<in> {''https://github.com/'', ''http://github.com/'', ''github.com/''}"
  shows "match_full_url (pre @ owner @ ''/'' @ repo) = Some (owner @ ''/'' @ repo)"
proof -
  have m: "owner_repo_at (owner @ ''/'' @ repo) = Some (owner @ ''/'' @ repo)"
    using assms by (intro owner_repo_at_pair) (simp_all add: name_part_def)
  from assms(3) consider "pre = ''https://github.com/''" | "pre = ''http://github.com/''"
    | "pre = ''github.com/''" by auto
  then show ?thesis
  proof cases
    case 1
    have "startswith (''https://github.com/'' @ owner @ ''/'' @ repo) ''https://github.com/''"
      by (rule startswith_append)
    then show ?thesis using m by (simp add: match_full_url_def 1)
  next
    case 2
    have "startswith (''http://github.com/'' @ owner @ ''/'' @ repo) ''http://github.com/''"
      by (rule startswith_append)
    moreover have "\<not> startswith (''http://github.com/'' @ owner @ ''/'' @ repo) ''https://github.com/''"
      by (simp add: startswith_def)
    ultimately show ?thesis using m by (simp add: match_full_url_def 2)
  next
    case 3
    have "startswith (''github.com/'' @ owner @ ''/'' @ repo) ''github.com/''"
      by (rule startswith_append)
    moreover have "\<not> startswith (''github.com/'' @ owner @ ''/'' @ repo) ''https://github.com/''"
      "\<not> startswith (''github.com/'' @ owner @ ''/'' @ repo) ''http://github.com/''"
      by (simp_all add: startswith_def)
    ultimately show ?thesis using m by (simp add: match_full_url_def 3)
  qed
qed

lemma no_match_after_host:
  assumes "CHR ''/'' \<notin> set owner" "CHR ''/'' \<notin> set repo" "CHR ''/'' \<in> set p"
    and "startswith (owner @ ''/'' @ repo) p"
  shows "owner_repo_at (drop (length p) (owner @ ''/'' @ repo)) = None"
proof -
  let ?s = "owner @ ''/'' @ repo"
  let ?d = "drop (length p) ?s"
  have s: "?s = p @ ?d" using assms(4) by (rule startswith_split)
  have "count_list ?s (CHR ''/'') = 1"
    using assms(1,2) by (simp add: count_list_0_iff)
  moreover have "count_list ?s (CHR ''/'') = count_list p (CHR ''/'') + count_list ?d (CHR ''/'')"
    by (subst s) simp
  moreover have "count_list p (CHR ''/'') \<noteq> 0"
    using assms(3) by (simp add: count_list_0_iff)
  ultimately have "count_list ?d (CHR ''/'') = 0" by linarith
  then have "CHR ''/'' \<notin> set ?d" by (simp add: count_list_0_iff)
  then show ?thesis by (rule owner_repo_at_no_slash)
qed

lemma match_full_url_bare:
  assumes "CHR ''/'' \<notin> set owner" "CHR ''/'' \<notin> set repo"
  shows "match_full_url (owner @ ''/'' @ repo) = None"
  using no_match_after_host[OF assms, of "''https://github.com/''"]
    no_match_after_host[OF assms, of "''http://github.com/''"]
    no_match_after_host[OF assms, of "''github.com/''"]
  by (simp add: match_full_url_def)

lemma match_owner_repo_pair:
  assumes "name_part owner" "name_part repo"
  shows "match_owner_repo (owner @ ''/'' @ repo) = Some (owner @ ''/'' @ repo)"
  using owner_repo_at_pair[of owner repo] assms
  by (simp add: match_owner_repo_def name_part_def)

lemma parse_repo_url_accepted:
  assumes o: "name_part owner" and r: "name_part repo"
    and pre: "pre \<in> {''https://github.com/'', ''http://github.com/'', ''github.com/'', []}"
    and suf: "suf \<in> {[], ''.git''}"
    and git: "suf = [] \<longrightarrow> \<not> endswith repo ''.git''"
    and ws: "\<forall>c\<in>set ws1. isspace c" "\<forall>c\<in>set ws2. isspace c"
  shows "parse_repo_url (ws1 @ (pre @ owner @ ''/'' @ repo @ suf) @ replicate n (CHR ''/'') @ ws2)
           = Inr (owner @ ''/'' @ repo)"
proof -
  have c: "clean_url (ws1 @ (pre @ owner @ ''/'' @ repo @ suf) @ replicate n (CHR ''/'') @ ws2)
             = pre @ owner @ ''/'' @ repo"
    using assms by (rule clean_url_accepted)
  show ?thesis
  proof (cases "pre = []")
    case True
    then show ?thesis
      using match_full_url_bare[of owner repo] match_owner_repo_pair[OF o r] o r
      unfolding parse_repo_url_def c Let_def by (simp add: name_part_def)
  next
    case False
    then have "pre \<in> {''https://github.com/'', ''http://github.com/'', ''github.com/''}"
      using pre by simp
    from match_full_url_prefixed[OF o r this] show ?thesis
      unfolding parse_repo_url_def c Let_def by simp
  qed
qed

lemma match_after_Some:
  "match_after ps url = Some m \<Longrightarrow> \<exists>p\<in>set ps. startswith url p"
  by (induction ps) (auto split: if_splits option.splits)

lemma match_full_url_host: "match_full_url url = Some m \<Longrightarrow> host_prefixed url"
  unfolding match_full_url_def host_prefixed_def by (drule match_after_Some) auto

lemma split_slash_plain: "CHR ''/'' \<notin> set s \<Longrightarrow> split_slash s = [s]"
  by (induction s) auto

lemma split_slash_pair:
  "CHR ''/'' \<notin> set a \<Longrightarrow> CHR ''/'' \<notin> set b \<Longrightarrow> split_slash (a @ ''/'' @ b) = [a, b]"
  by (induction a) (auto simp: split_slash_plain)

lemma match_owner_repo_two_part: "match_owner_repo url = Some m \<Longrightarrow> two_part url"
proof -
  assume "match_owner_repo url = Some m"
  then have a: "owner_repo_at url = Some url"
    by (auto simp: match_owner_repo_def split: option.splits if_splits)
  from owner_repo_at_Some[OF a] obtain owner repo where
    "owner \<noteq> []" "repo \<noteq> []" "CHR ''/'' \<notin> set owner" "CHR ''/'' \<notin> set repo"
    "url = owner @ ''/'' @ repo" by auto
  then show ?thesis using split_slash_pair[of owner repo] by (simp add: two_part_def)
qed

lemma parse_repo_url_rejected:
  assumes "\<not> two_part (clean_url url)" "\<not> host_prefixed (clean_url url)"
  shows "\<exists>msg. parse_repo_url url = Inl (ValueError msg)"
proof -
  have "match_full_url (clean_url url) = None"
    using assms(2) match_full_url_host by (cases "match_full_url (clean_url url)") auto
  moreover have "match_owner_repo (clean_url url) = None"
    using assms(1) match_owner_repo_two_part by (cases "match_owner_repo (clean_url url)") auto
  ultimately show ?thesis by (simp add: parse_repo_url_def Let_def)
qed


text \<open>
  Claim C1. Every reference of an accepted form normalizes to \<open>owner/repo\<close>: the
  owner and the repository name are non-empty, slash-free and have no white space at
  their outer ends; the reference is an optional host prefix (with or without scheme),
  \<open>owner/repo\<close>, an optional \<open>.git\<close>, any number of trailing slashes, and white
  space around it all. (A name that itself ends in \<open>.git\<close> is read as a name with the
  suffix, so without the suffix the name must not end in \<open>.git\<close>.) And every
  input that, once trimmed, has neither the two-part shape nor a \<open>github.com\<close> host
  prefix is rejected with the \<open>ValueError\<close> of an invalid reference.
\<close>

theorem parse_repo_url_normalizes:
  "(name_part owner \<and> name_part repo
      \<and> pre \<in> {''https://github.com/'', ''http://github.com/'', ''github.com/'', []}
      \<and> suf \<in> {[], ''.git''}
      \<and> (suf = [] \<longrightarrow> \<not> endswith repo ''.git'')
      \<and> (\<forall>c\<in>set ws1. isspace c) \<and> (\<forall>c\<in>set ws2. isspace c)
    \<longrightarrow> parse_repo_url (ws1 @ (pre @ owner @ ''/'' @ repo @ suf) @ replicate n (CHR ''/'') @ ws2)
          = Inr (owner @ ''/'' @ repo))
   \<and> (\<not> two_part (clean_url url) \<and> \<not> host_prefixed (clean_url url)
    \<longrightarrow> (\<exists>msg. parse_repo_url url = Inl (ValueError msg)))"
  using parse_repo_url_accepted[of owner repo pre suf ws1 ws2 n] parse_repo_url_rejected[of url]
  by blast

theorem parse_repo_url_normalizes_witness:
  "parse_repo_url ''  https://github.com/octocat/Hello-World.git/ '' = Inr ''octocat/Hello-World''
   \<and> \<not> two_part (clean_url ''octocat/Hello-World/issues'')
   \<and> \<not> host_prefixed (clean_url ''octocat/Hello-World/issues'')
   \<and> (\<exists>msg. parse_repo_url ''octocat/Hello-World/issues'' = Inl (ValueError msg))"
proof -
  have sp: "isspace (CHR '' '')" by (simp add: isspace_def)
  have n: "name_part ''octocat''" "name_part ''Hello-World''"
    by (simp_all add: name_part_def isspace_def)
  have c: "clean_url ''octocat/Hello-World/issues'' = ''octocat/Hello-World/issues''"
    by (simp add: clean_url_def strip_def lstrip_def rstrip_def rstrip_slash_def isspace_def
        endswith_def)
  have t: "\<not> two_part ''octocat/Hello-World/issues''"
    by (simp add: two_part_def)
  have h: "\<not> host_prefixed ''octocat/Hello-World/issues''"
    by (simp add: host_prefixed_def startswith_def)
  show ?thesis
    using parse_repo_url_normalizes[of "''octocat''" "''Hello-World''" "''https://github.com/''"
        "''.git''" "''  ''" "'' ''" 1 "''octocat/Hello-World/issues''"] sp n c t h
    by simp
qed

section \<open>Properties of the tree builder\<close>


lemma levels_ok_Nil [simp]: "levels_ok k []"
  by (cases k) simp_all

lemma levels_ok_Cons:
  "levels_ok k (n # ns) \<longleftrightarrow>
     k \<noteq> 0 \<and> (case node_children n of None \<Rightarrow> True
                | Some ch \<Rightarrow> node_type n = ''dir'' \<and> k \<noteq> Suc 0 \<and> levels_ok (k - 1) ch)
     \<and> levels_ok k ns"
  by (cases k) (auto split: option.splits)

lemma build_levels_ok:
  "(0 \<le> depth \<longrightarrow> build_tree r path depth = Inr tree
      \<longrightarrow> levels_ok (nat (MAX_TREE_DEPTH - depth)) tree)"
  "(0 \<le> depth' \<longrightarrow> depth' < MAX_TREE_DEPTH \<longrightarrow> build_nodes r items depth' = Inr tree'
      \<longrightarrow> levels_ok (nat (MAX_TREE_DEPTH - depth')) tree')"
proof (induction r path depth and r items depth' arbitrary: tree and tree' rule: build_tree_build_nodes.induct)
  case (1 r path depth)
  show ?case
  proof (intro impI)
    assume d: "0 \<le> depth" and b: "build_tree r path depth = Inr tree"
    show "levels_ok (nat (MAX_TREE_DEPTH - depth)) tree"
    proof (cases "depth \<ge> MAX_TREE_DEPTH")
      case True
      then show ?thesis using b by simp
    next
      case False
      then show ?thesis using b d "1.IH"
        by (auto split: sum.splits exn.splits contents.splits)
    qed
  qed
next
  case (2 r depth)
  then show ?case by simp
next
  case (3 r item items depth)
  show ?case
  proof (intro impI)
    assume d: "0 \<le> depth" "depth < MAX_TREE_DEPTH"
      and b: "build_nodes r (item # items) depth = Inr tree'"
    show "levels_ok (nat (MAX_TREE_DEPTH - depth)) tree'"
    proof (cases "cf_type item = ''dir'' \<and> depth < MAX_TREE_DEPTH - 1")
      case True
      from b True obtain ch t where
        ch: "build_tree r (cf_path item) (depth + 1) = Inr ch"
        and t: "build_nodes r items depth = Inr t"
        and tree: "tree' = Node (cf_name item) ''dir'' (cf_path item) (Some ch) # t"
        by (auto simp: Let_def split: sum.splits)
      have 1: "levels_ok (nat (MAX_TREE_DEPTH - (depth + 1))) ch"
        using "3.IH"(1)[OF refl True, of ch] d ch by simp
      have 2: "levels_ok (nat (MAX_TREE_DEPTH - depth)) t"
        using "3.IH"(2)[OF refl True ch, of t] d t by simp
      have k: "nat (MAX_TREE_DEPTH - depth) - 1 = nat (MAX_TREE_DEPTH - (depth + 1))"
        by simp
      have n: "nat (MAX_TREE_DEPTH - depth) \<noteq> 0" "nat (MAX_TREE_DEPTH - depth) \<noteq> Suc 0"
        using True d unfolding MAX_TREE_DEPTH_def by linarith+
      show ?thesis
        using 1 2 n unfolding tree levels_ok_Cons k by simp
    next
      case False
      from b False obtain t where
        t: "build_nodes r items depth = Inr t"
        and tree: "tree' = Node (cf_name item) (if cf_type item = ''dir'' then ''dir'' else ''file'')
                      (cf_path item) None # t"
        by (auto simp: Let_def split: sum.splits)
      have 2: "levels_ok (nat (MAX_TREE_DEPTH - depth)) t"
        using "3.IH"(3)[OF refl False, of t] d t by simp
      have n: "nat (MAX_TREE_DEPTH - depth) \<noteq> 0"
        using d unfolding MAX_TREE_DEPTH_def by linarith
      show ?thesis
        using 2 n unfolding tree levels_ok_Cons by simp
    qed
  qed
qed


lemma levels_ok_depth: "levels_ok k tree \<Longrightarrow> tree_depth tree \<le> k"
proof (induction k arbitrary: tree)
  case 0
  then show ?case by simp
next
  case (Suc k)
  from Suc.prems show ?case
  proof (induction tree)
    case Nil
    then show ?case by simp
  next
    case (Cons n ns)
    obtain name ty path children where n: "n = Node name ty path children" by (cases n)
    have "node_depth n \<le> Suc k"
    proof (cases children)
      case None
      then show ?thesis by (simp add: n)
    next
      case (Some ch)
      then have "levels_ok k ch" using Cons.prems by (simp add: n)
      then have "tree_depth ch \<le> k" by (rule Suc.IH)
      then show ?thesis by (simp add: n Some)
    qed
    moreover have "tree_depth ns \<le> Suc k" using Cons by simp
    ultimately show ?case by simp
  qed
qed

lemma levels_ok_dirs:
  "levels_ok k tree \<Longrightarrow> n \<in> set (all_nodes tree) \<Longrightarrow> node_children n \<noteq> None
     \<Longrightarrow> node_type n = ''dir''"
proof (induction k arbitrary: tree n)
  case 0
  then show ?case by simp
next
  case (Suc k)
  from Suc.prems show ?case
  proof (induction tree)
    case Nil
    then show ?case by simp
  next
    case (Cons m ms)
    obtain name ty path children where m: "m = Node name ty path children" by (cases m)
    from Cons.prems(2) consider "n = m" | ch where "children = Some ch" "n \<in> set (all_nodes ch)"
      | "n \<in> set (all_nodes ms)"
      by (auto simp: m split: option.splits)
    then show ?case
    proof cases
      case 1
      then show ?thesis using Cons.prems by (auto simp: m split: option.splits)
    next
      case 2
      then have "levels_ok k ch" using Cons.prems(1) by (simp add: m)
      then show ?thesis using 2 Cons.prems(3) by (intro Suc.IH)
    next
      case 3
      then show ?thesis using Cons by simp
    qed
  qed
qed

lemma levels_ok_leaves:
  "levels_ok k tree \<Longrightarrow> n \<in> set (nodes_at k tree) \<Longrightarrow> node_children n = None"
proof (induction k arbitrary: tree n)
  case 0
  then show ?case by simp
next
  case (Suc k)
  show ?case
  proof (cases k)
    case 0
    then show ?thesis using Suc.prems by (auto simp: list_all_iff split: option.splits)
  next
    case (Suc j)
    from Suc.prems(2) obtain m ch where m: "m \<in> set tree" "node_children m = Some ch"
      "n \<in> set (nodes_at k ch)"
      by (auto simp: Suc split: option.splits) (metis)
    then have "levels_ok k ch" using Suc.prems(1) by (auto simp: list_all_iff)
    then show ?thesis using m(3) by (rule Suc.IH)
  qed
qed

text \<open>
  Claim C3. Every tree that \<open>_build_tree\<close> returns (at a depth that is not negative,
  as all its calls are) has at most \<open>MAX_TREE_DEPTH - depth\<close> levels, hence at most 3;
  only nodes of type \<open>dir\<close> carry \<open>children\<close>; and no node of the deepest allowed
  level carries \<open>children\<close>.
\<close>

theorem build_tree_depth_invariant:
  assumes "0 \<le> depth" and "build_tree r path depth = Inr tree"
  shows "tree_depth tree \<le> nat (MAX_TREE_DEPTH - depth) \<and> tree_depth tree \<le> 3
         \<and> (\<forall>n\<in>set (all_nodes tree). node_children n \<noteq> None \<longrightarrow> node_type n = ''dir'')
         \<and> (\<forall>n\<in>set (nodes_at (nat (MAX_TREE_DEPTH - depth)) tree). node_children n = None)"
proof -
  have ok: "levels_ok (nat (MAX_TREE_DEPTH - depth)) tree"
    using build_levels_ok(1)[of depth r path tree] assms by simp
  have "tree_depth tree \<le> nat (MAX_TREE_DEPTH - depth)"
    using ok by (rule levels_ok_depth)
  moreover have "nat (MAX_TREE_DEPTH - depth) \<le> 3"
    using assms(1) by (simp add: MAX_TREE_DEPTH_def)
  ultimately show ?thesis
    using levels_ok_dirs[OF ok] levels_ok_leaves[OF ok] by auto
qed

lemma demo_build_tree: "build_tree demo_repo [] 0 = Inr demo_tree"
  by (simp add: demo_repo_def demo_contents_def entry_def demo_tree_def MAX_TREE_DEPTH_def
      not_found_def)

theorem build_tree_depth_invariant_witness:
  "build_tree demo_repo [] 0 = Inr demo_tree
   \<and> tree_depth demo_tree = 3
   \<and> map node_type (filter (\<lambda>n. node_children n \<noteq> None) (all_nodes demo_tree))
       = [''dir'', ''dir'']
   \<and> nodes_at 3 demo_tree = [Node ''core'' ''dir'' ''src/app/core'' None]
   \<and> map node_children (nodes_at 3 demo_tree) = [None]"
proof -
  have d: "tree_depth demo_tree = 3"
    by (simp add: demo_tree_def)
  have n: "nodes_at 3 demo_tree = [Node ''core'' ''dir'' ''src/app/core'' None]"
    by (simp add: demo_tree_def numeral_3_eq_3)
  have a: "map node_type (filter (\<lambda>n. node_children n \<noteq> None) (all_nodes demo_tree))
             = [''dir'', ''dir'']"
    by (simp add: demo_tree_def)
  show ?thesis
    using build_tree_depth_invariant[of 0 demo_repo "[]" demo_tree] demo_build_tree d n a
    by (simp add: MAX_TREE_DEPTH_def)
qed

section \<open>Properties of the aggregation\<close>


lemma build_tree_listing_fails:
  "get_contents r path = Inl (GithubException d m) \<Longrightarrow> build_tree r path depth = Inr []"
  by simp

lemma format_tree_empty: "format_tree [] pfx = []"
  by simp

lemma read_file_content_Some:
  assumes "read_file_content decode r p = Some s"
  shows "\<exists>f content decoded. get_contents r p = Inr (Single f) \<and> cf_encoding f = ''base64''
           \<and> cf_content f = Some content \<and> content \<noteq> [] \<and> decode content = Inr decoded
           \<and> s = take MAX_FILE_CONTENT_LENGTH decoded"
  using assms
  by (auto simp: read_file_content_def split: sum.splits contents.splits option.splits if_splits)

lemma read_file_content_length:
  "read_file_content decode r p = Some s \<Longrightarrow> length s \<le> 3000"
  by (auto dest!: read_file_content_Some simp: MAX_FILE_CONTENT_LENGTH_def)

lemma read_file_content_fetch_fails:
  "get_contents r p = Inl e \<Longrightarrow> read_file_content decode r p = None"
  by (simp add: read_file_content_def)

lemma read_file_content_decode_fails:
  "get_contents r p = Inr (Single f) \<Longrightarrow> cf_content f = Some content \<Longrightarrow> decode content = Inl e
     \<Longrightarrow> read_file_content decode r p = None"
  by (simp add: read_file_content_def)

lemma read_file_content_same:
  "get_contents r p = get_contents r' p \<Longrightarrow> read_file_content decode r p = read_file_content decode r' p"
  by (simp add: read_file_content_def)

lemma update_fresh: "k \<notin> fst ` set al \<Longrightarrow> AList.update k v al = al @ [(k, v)]"
  by (induction al) auto

lemma read_important_eq:
  "distinct ps \<Longrightarrow> set ps \<inter> fst ` set acc = {} \<Longrightarrow>
   read_important decode r ps acc =
     acc @ List.map_filter (important_entry decode r) ps"
proof (induction ps arbitrary: acc)
  case Nil
  then show ?case by (simp add: List.map_filter_simps important_entry_def)
next
  case (Cons p ps)
  show ?case
  proof (cases "read_file_content decode r p")
    case None
    then show ?thesis using Cons by (simp add: List.map_filter_simps important_entry_def)
  next
    case (Some c)
    show ?thesis
    proof (cases "c = []")
      case True
      then show ?thesis using Cons Some by (simp add: List.map_filter_simps important_entry_def)
    next
      case False
      have f: "p \<notin> fst ` set acc" using Cons.prems by auto
      have "set ps \<inter> fst ` set (acc @ [(p, c)]) = {}" using Cons.prems by auto
      then show ?thesis using Cons Some False f by (simp add: List.map_filter_simps important_entry_def update_fresh)
    qed
  qed
qed

lemma find_readme_eq:
  "find_readme decode r ns =
     (case filter (\<lambda>n. truthy (read_file_content decode r n)) ns of
        [] \<Rightarrow> None
      | n # _ \<Rightarrow> read_file_content decode r n)"
  by (induction ns) (auto simp: truthy_def split: option.splits)

lemma find_readme_Some:
  "find_readme decode r ns = Some s \<Longrightarrow> s \<noteq> [] \<and> (\<exists>n\<in>set ns. read_file_content decode r n = Some s)"
  by (induction ns) (auto split: option.splits if_splits)

lemma fetch_repo_data_Inr:
  assumes "fetch_repo_data github decode url tok = Inr dg"
  shows "\<exists>full_name r topics langs tree.
           parse_repo_url url = Inr full_name
           \<and> github (if tok \<noteq> [] then Some tok else None) full_name = Inr r
           \<and> get_topics r = Inr topics \<and> get_languages r = Inr langs
           \<and> build_tree r [] 0 = Inr tree
           \<and> file_tree dg = format_tree tree []
           \<and> languages dg = langs
           \<and> important_files dg = read_important decode r IMPORTANT_FILES []
           \<and> existing_readme dg = find_readme decode r README_NAMES
           \<and> md_full_name (metadata dg) = repo_full_name r"
  using assms unfolding fetch_repo_data_def
  by (auto simp: Let_def simp del: build_tree.simps split: sum.splits exn.splits exn_data.splits)


lemma build_succeeds:
  "(\<forall>p\<in>set (listing_calls r path depth). listing_or_api_error (get_contents r p))
     \<longrightarrow> (\<exists>t. build_tree r path depth = Inr t)"
  "(\<forall>p\<in>set (item_calls r items depth'). listing_or_api_error (get_contents r p))
     \<longrightarrow> (\<exists>t. build_nodes r items depth' = Inr t)"
proof (induction r path depth and r items depth' rule: build_tree_build_nodes.induct)
  case (1 r path depth)
  show ?case
  proof (intro impI)
    assume h: "\<forall>p\<in>set (listing_calls r path depth). listing_or_api_error (get_contents r p)"
    show "\<exists>t. build_tree r path depth = Inr t"
    proof (cases "depth \<ge> MAX_TREE_DEPTH")
      case True
      then show ?thesis by simp
    next
      case False
      then have here: "listing_or_api_error (get_contents r path)" using h by simp
      show ?thesis
      proof (cases "get_contents r path")
        case (Inl e)
        then obtain d m where "e = GithubException d m" using here by (cases e) auto
        then show ?thesis using Inl False by simp
      next
        case (Inr c)
        then obtain items where c: "c = Listing items" using here by (cases c) auto
        have "\<forall>p\<in>set (item_calls r items depth). listing_or_api_error (get_contents r p)"
          using h False Inr c by simp
        then have "\<exists>t. build_nodes r items depth = Inr t"
          using "1.IH"[OF False Inr c] by blast
        then show ?thesis using Inr c False by simp
      qed
    qed
  qed
next
  case (2 r depth)
  then show ?case by simp
next
  case (3 r item items depth)
  show ?case
  proof (intro impI)
    assume h: "\<forall>p\<in>set (item_calls r (item # items) depth). listing_or_api_error (get_contents r p)"
    then have rest: "\<forall>p\<in>set (item_calls r items depth). listing_or_api_error (get_contents r p)"
      by simp
    show "\<exists>t. build_nodes r (item # items) depth = Inr t"
    proof (cases "cf_type item = ''dir'' \<and> depth < MAX_TREE_DEPTH - 1")
      case True
      then have "\<forall>p\<in>set (listing_calls r (cf_path item) (depth + 1)).
                   listing_or_api_error (get_contents r p)"
        using h by (simp del: listing_calls.simps)
      then obtain ch where ch: "build_tree r (cf_path item) (depth + 1) = Inr ch"
        using "3.IH"(1)[OF refl True] by blast
      obtain t where "build_nodes r items depth = Inr t"
        using "3.IH"(2)[OF refl True ch] rest by blast
      then show ?thesis using True ch by (simp add: Let_def del: build_tree.simps)
    next
      case False
      obtain t where "build_nodes r items depth = Inr t"
        using "3.IH"(3)[OF refl False] rest by blast
      then show ?thesis using False by (auto simp: Let_def)
    qed
  qed
qed

lemma fetch_repo_data_returns:
  assumes "parse_repo_url url = Inr full_name"
    and "github (if tok \<noteq> [] then Some tok else None) full_name = Inr r"
    and "get_topics r = Inr topics" and "get_languages r = Inr langs"
    and "build_tree r [] 0 = Inr tree"
  shows "\<exists>dg. fetch_repo_data github decode url tok = Inr dg
           \<and> file_tree dg = format_tree tree []
           \<and> languages dg = langs
           \<and> important_files dg = read_important decode r IMPORTANT_FILES []
           \<and> existing_readme dg = find_readme decode r README_NAMES
           \<and> md_full_name (metadata dg) = repo_full_name r"
  using assms unfolding fetch_repo_data_def
  by (simp add: Let_def del: build_tree.simps)

lemma fetch_repo_data_no_access:
  assumes "parse_repo_url url = Inr full_name"
    and "github (if tok \<noteq> [] then Some tok else None) full_name
           = Inl (GithubException (DataDict message) m)"
  shows "fetch_repo_data github decode url tok =
           Inl (ValueError (''Could not access repository '' @ [CHR 0x27] @ full_name
                  @ [CHR 0x27] @ '': ''
                  @ (case message of Some msg \<Rightarrow> msg | None \<Rightarrow> m)))"
  using assms unfolding fetch_repo_data_def by simp

lemma distinct_IMPORTANT_FILES: "distinct IMPORTANT_FILES"
  by (simp add: IMPORTANT_FILES_def)

lemma important_files_eq:
  "read_important decode r IMPORTANT_FILES [] =
     List.map_filter (important_entry decode r) IMPORTANT_FILES"
  using read_important_eq[of IMPORTANT_FILES "[]" decode r] distinct_IMPORTANT_FILES by simp



lemma demo_reads:
  "read_file_content demo_decode demo_repo ''README.md'' = None"
  "read_file_content demo_decode demo_repo ''readme.md'' = None"
  "read_file_content demo_decode demo_repo ''README.rst'' = Some ''Hello''"
  "read_file_content demo_decode demo_repo ''Makefile'' = Some []"
  "read_file_content demo_decode demo_repo ''LICENSE'' = None"
  "read_file_content demo_decode demo_repo ''package.json'' = Some ''{}''"
  "read_file_content demo_decode demo_repo ''README.txt'' = None"
  "read_file_content demo_decode demo_repo ''README'' = None"
  by (simp_all add: read_file_content_def demo_repo_def demo_contents_def blob_def
      demo_decode_def MAX_FILE_CONTENT_LENGTH_def not_found_def)

text \<open>
  Claim C4. \<open>_read_file_content\<close> depends only on what the remote answers for the
  path; a returned string is the first 3000 characters of the decoded content, so no
  longer than 3000; a failed fetch and a failed decode both give \<open>None\<close>. The
  result type has no error: nothing is propagated.
\<close>

theorem read_file_content_bounded:
  "(get_contents r p = get_contents r' p
      \<longrightarrow> read_file_content decode r p = read_file_content decode r' p)
   \<and> (read_file_content decode r p = Some s
      \<longrightarrow> (\<exists>f content decoded. get_contents r p = Inr (Single f) \<and> cf_content f = Some content
             \<and> decode content = Inr decoded \<and> s = take 3000 decoded)
          \<and> length s \<le> 3000)
   \<and> (get_contents r p = Inl e \<longrightarrow> read_file_content decode r p = None)
   \<and> (get_contents r p = Inr (Single f) \<and> cf_content f = Some content \<and> decode content = Inl e'
      \<longrightarrow> read_file_content decode r p = None)"
  using read_file_content_same[of r p r' decode] read_file_content_Some[of decode r p s]
    read_file_content_length[of decode r p s] read_file_content_fetch_fails[of r p e decode]
    read_file_content_decode_fails[of r p f content decode e']
  by (auto simp: MAX_FILE_CONTENT_LENGTH_def)

theorem read_file_content_bounded_witness:
  "get_contents demo_repo ''README.rst'' = get_contents flaky_repo ''README.rst''
   \<and> read_file_content demo_decode demo_repo ''README.rst'' = Some ''Hello''
   \<and> read_file_content demo_decode flaky_repo ''README.rst'' = Some ''Hello''
   \<and> length ''Hello'' \<le> 3000
   \<and> get_contents demo_repo ''setup.py'' = Inl not_found
   \<and> read_file_content demo_decode demo_repo ''setup.py'' = None
   \<and> get_contents demo_repo ''LICENSE'' = Inr (Single (blob ''LICENSE'' ''LICENSE'' ''!''))
   \<and> demo_decode ''!'' = Inl (OtherException ''binascii.Error: Incorrect padding'')
   \<and> read_file_content demo_decode demo_repo ''LICENSE'' = None"
proof -
  have g: "get_contents demo_repo ''README.rst'' = get_contents flaky_repo ''README.rst''"
    by (simp add: flaky_repo_def)
  have n: "get_contents demo_repo ''setup.py'' = Inl not_found"
    by (simp add: demo_repo_def demo_contents_def)
  have l: "get_contents demo_repo ''LICENSE'' = Inr (Single (blob ''LICENSE'' ''LICENSE'' ''!''))"
    by (simp add: demo_repo_def demo_contents_def)
  have c: "cf_content (blob ''LICENSE'' ''LICENSE'' ''!'') = Some ''!''"
    by (simp add: blob_def)
  have d: "demo_decode ''!'' = Inl (OtherException ''binascii.Error: Incorrect padding'')"
    by (simp add: demo_decode_def)
  show ?thesis
    using read_file_content_bounded[of demo_repo "''README.rst''" flaky_repo demo_decode "''Hello''"]
      read_file_content_bounded[of demo_repo "''setup.py''" demo_repo demo_decode _ not_found]
      read_file_content_bounded[of demo_repo "''LICENSE''" demo_repo demo_decode _ _
        "blob ''LICENSE'' ''LICENSE'' ''!''" "''!''" "OtherException ''binascii.Error: Incorrect padding''"]
      g n l c d demo_reads(3)
    by simp
qed



lemma demo_parse: "parse_repo_url ''octocat/Hello-World'' = Inr ''octocat/Hello-World''"
  by (simp add: parse_repo_url_def clean_url_def strip_def lstrip_def rstrip_def
      rstrip_slash_def isspace_def endswith_def match_full_url_def startswith_def
      owner_repo_at_def match_owner_repo_def)

lemma demo_important:
  "read_important demo_decode demo_repo IMPORTANT_FILES [] = [(''package.json'', ''{}'')]"
  by (simp add: IMPORTANT_FILES_def read_file_content_def demo_repo_def demo_contents_def
      blob_def demo_decode_def MAX_FILE_CONTENT_LENGTH_def not_found_def)

lemma demo_readme: "find_readme demo_decode demo_repo README_NAMES = Some ''Hello''"
  by (simp add: README_NAMES_def demo_reads)

lemma in_set_map_filter:
  "y \<in> set (List.map_filter f xs) \<longleftrightarrow> (\<exists>x\<in>set xs. f x = Some y)"
  by (induction xs) (auto split: option.splits)

text \<open>
  Claim C8, as amended. A listing call that fails with the client's exception makes
  \<open>_build_tree\<close> return the empty sequence; and when the root listing fails so (it
  is then the only listing call made), \<open>fetch_repo_data\<close>, its handle resolved and
  its topics and languages read, still returns a digest, whose \<open>file_tree\<close> is the
  empty string.
\<close>

theorem tree_phase_degrades:
  "(get_contents r path = Inl (GithubException d m) \<longrightarrow> build_tree r path depth = Inr [])
   \<and> (parse_repo_url url = Inr full_name
       \<and> github (if tok \<noteq> [] then Some tok else None) full_name = Inr r'
       \<and> get_topics r' = Inr topics \<and> get_languages r' = Inr langs
       \<and> get_contents r' [] = Inl (GithubException d' m')
      \<longrightarrow> (\<exists>dg. fetch_repo_data github decode url tok = Inr dg \<and> file_tree dg = []))"
proof (intro conjI impI)
  assume "get_contents r path = Inl (GithubException d m)"
  then show "build_tree r path depth = Inr []" by (rule build_tree_listing_fails)
next
  assume h: "parse_repo_url url = Inr full_name
       \<and> github (if tok \<noteq> [] then Some tok else None) full_name = Inr r'
       \<and> get_topics r' = Inr topics \<and> get_languages r' = Inr langs
       \<and> get_contents r' [] = Inl (GithubException d' m')"
  then have t: "build_tree r' [] 0 = Inr []" by (intro build_tree_listing_fails) simp
  from h fetch_repo_data_returns[of url full_name github tok r' topics langs "[]" decode] t
  show "\<exists>dg. fetch_repo_data github decode url tok = Inr dg \<and> file_tree dg = []"
    by (auto simp: format_tree_empty simp del: build_tree.simps format_tree.simps)
qed

theorem tree_phase_degrades_witness:
  "get_contents dark_repo [] = Inl rate_limited
   \<and> build_tree dark_repo [] 0 = Inr []
   \<and> (\<exists>dg. fetch_repo_data dark_github demo_decode ''octocat/Hello-World'' [] = Inr dg
          \<and> file_tree dg = [])"
proof -
  have g: "get_contents dark_repo [] = Inl (GithubException (DataDict (Some ''API rate limit exceeded'')) ''403 Forbidden'')"
    by (simp add: dark_repo_def rate_limited_def)
  have r: "dark_github None ''octocat/Hello-World'' = Inr dark_repo"
    by (simp add: dark_github_def)
  have t: "get_topics dark_repo = Inr [''demo'']" "get_languages dark_repo = Inr [(''Python'', 1234)]"
    by (simp_all add: dark_repo_def demo_repo_def)
  show ?thesis
    using tree_phase_degrades[where r = dark_repo and path = "[]"
        and d = "DataDict (Some ''API rate limit exceeded'')" and m = "''403 Forbidden''" and depth = 0
        and url = "''octocat/Hello-World''" and full_name = "''octocat/Hello-World''"
        and tok = "[]" and github = dark_github and r' = dark_repo and topics = "[''demo'']"
        and langs = "[(''Python'', 1234)]" and d' = "DataDict (Some ''API rate limit exceeded'')"
        and m' = "''403 Forbidden''" and decode = demo_decode]
      g r t demo_parse
    by (simp add: rate_limited_def del: build_tree.simps)
qed

text \<open>
  Claim C8 as stated fails: \<open>_build_tree\<close> catches the client's exception only.
  When the listing calls end in a transport error, the error leaves \<open>_build_tree\<close>
  and \<open>fetch_repo_data\<close>, and no digest is returned.
\<close>

theorem tree_phase_transport_error_surfaces:
  "offline_github None ''octocat/Hello-World'' = Inr offline_repo
   \<and> get_contents offline_repo [] = Inl connection_error
   \<and> build_tree offline_repo [] 0 = Inl connection_error
   \<and> fetch_repo_data offline_github demo_decode ''octocat/Hello-World'' [] = Inl connection_error"
proof -
  have b: "build_tree offline_repo [] 0 = Inl connection_error"
    by (simp add: offline_repo_def connection_error_def MAX_TREE_DEPTH_def)
  have t: "get_topics offline_repo = Inr [''demo'']"
    "get_languages offline_repo = Inr [(''Python'', 1234)]"
    by (simp_all add: offline_repo_def demo_repo_def)
  have f: "fetch_repo_data offline_github demo_decode ''octocat/Hello-World'' [] = Inl connection_error"
    unfolding fetch_repo_data_def demo_parse
    by (simp add: offline_github_def b t del: build_tree.simps)
  show ?thesis
    using b f by (simp add: offline_github_def offline_repo_def del: build_tree.simps)
qed

text \<open>
  Claim C10. In every digest that \<open>fetch_repo_data\<close> returns, each value of
  \<open>important_files\<close> and the \<open>existing_readme\<close>, when present, is a non-empty
  string of at most 3000 characters. \<open>important_files\<close> holds, in the order of the
  allow-list, exactly the paths whose content is truthy, so a path whose content is
  absent or empty is omitted; and \<open>existing_readme\<close> is the content of the first
  candidate whose content is truthy, an empty candidate being passed over.
\<close>

theorem digest_contents_nonempty_bounded:
  assumes "fetch_repo_data github decode url tok = Inr dg"
  shows "(\<forall>(p, c)\<in>set (important_files dg). p \<in> set IMPORTANT_FILES \<and> c \<noteq> [] \<and> length c \<le> 3000)
         \<and> (\<forall>s. existing_readme dg = Some s \<longrightarrow> s \<noteq> [] \<and> length s \<le> 3000)
         \<and> (\<exists>full_name r. parse_repo_url url = Inr full_name
               \<and> github (if tok \<noteq> [] then Some tok else None) full_name = Inr r
               \<and> important_files dg = List.map_filter (important_entry decode r) IMPORTANT_FILES
               \<and> (\<forall>p. \<not> truthy (read_file_content decode r p) \<longrightarrow> p \<notin> fst ` set (important_files dg))
               \<and> existing_readme dg =
                   (case filter (\<lambda>n. truthy (read_file_content decode r n)) README_NAMES of
                      [] \<Rightarrow> None
                    | n # _ \<Rightarrow> read_file_content decode r n))"
proof -
  from fetch_repo_data_Inr[OF assms] obtain full_name r where
    p: "parse_repo_url url = Inr full_name"
    and g: "github (if tok \<noteq> [] then Some tok else None) full_name = Inr r"
    and i: "important_files dg = read_important decode r IMPORTANT_FILES []"
    and e: "existing_readme dg = find_readme decode r README_NAMES"
    by blast
  have i': "important_files dg = List.map_filter (important_entry decode r) IMPORTANT_FILES"
    using i by (simp add: important_files_eq)
  have mem: "\<And>p c. (p, c) \<in> set (important_files dg) \<Longrightarrow>
               p \<in> set IMPORTANT_FILES \<and> read_file_content decode r p = Some c \<and> c \<noteq> []"
    unfolding i' by (auto simp: in_set_map_filter important_entry_def split: option.splits if_splits)
  have 1: "\<forall>(p, c)\<in>set (important_files dg). p \<in> set IMPORTANT_FILES \<and> c \<noteq> [] \<and> length c \<le> 3000"
    using mem read_file_content_length by blast
  have 2: "\<forall>s. existing_readme dg = Some s \<longrightarrow> s \<noteq> [] \<and> length s \<le> 3000"
    unfolding e using find_readme_Some read_file_content_length by blast
  have 3: "\<forall>p. \<not> truthy (read_file_content decode r p) \<longrightarrow> p \<notin> fst ` set (important_files dg)"
    using mem by (force simp: truthy_def)
  have 4: "existing_readme dg =
             (case filter (\<lambda>n. truthy (read_file_content decode r n)) README_NAMES of
                [] \<Rightarrow> None | n # _ \<Rightarrow> read_file_content decode r n)"
    unfolding e by (rule find_readme_eq)
  show ?thesis using 1 2 3 4 p g i' by blast
qed



lemma demo_fetch:
  "\<exists>dg. fetch_repo_data demo_github demo_decode ''octocat/Hello-World'' [] = Inr dg
        \<and> important_files dg = [(''package.json'', ''{}'')]
        \<and> existing_readme dg = Some ''Hello''
        \<and> md_full_name (metadata dg) = ''octocat/Hello-World''"
proof -
  have g: "demo_github (if ([]::string) \<noteq> [] then Some [] else None) ''octocat/Hello-World''
             = Inr demo_repo"
    by (simp add: demo_github_def)
  have t: "get_topics demo_repo = Inr [''demo'']" "get_languages demo_repo = Inr [(''Python'', 1234)]"
    "repo_full_name demo_repo = ''octocat/Hello-World''"
    by (simp_all add: demo_repo_def)
  from fetch_repo_data_returns[where github = demo_github and tok = "[]" and decode = demo_decode,
      OF demo_parse g t(1,2) demo_build_tree]
  have "\<exists>dg. fetch_repo_data demo_github demo_decode ''octocat/Hello-World'' [] = Inr dg
          \<and> file_tree dg = format_tree demo_tree []
          \<and> languages dg = [(''Python'', 1234)]
          \<and> important_files dg = [(''package.json'', ''{}'')]
          \<and> existing_readme dg = Some ''Hello''
          \<and> md_full_name (metadata dg) = ''octocat/Hello-World''"
    by (simp only: demo_important demo_readme t(3))
  then show ?thesis by blast
qed

theorem digest_contents_nonempty_bounded_witness:
  "\<exists>dg. fetch_repo_data demo_github demo_decode ''octocat/Hello-World'' [] = Inr dg
        \<and> important_files dg = [(''package.json'', ''{}'')]
        \<and> existing_readme dg = Some ''Hello''
        \<and> important_files dg = List.map_filter (important_entry demo_decode demo_repo) IMPORTANT_FILES
        \<and> \<not> truthy (read_file_content demo_decode demo_repo ''Makefile'')
        \<and> ''Makefile'' \<notin> fst ` set (important_files dg)
        \<and> filter (\<lambda>n. truthy (read_file_content demo_decode demo_repo n)) README_NAMES = [''README.rst'']"
proof -
  from demo_fetch obtain dg where
    f: "fetch_repo_data demo_github demo_decode ''octocat/Hello-World'' [] = Inr dg"
    and i: "important_files dg = [(''package.json'', ''{}'')]"
    and e: "existing_readme dg = Some ''Hello''"
    by blast
  have m: "\<not> truthy (read_file_content demo_decode demo_repo ''Makefile'')"
    by (simp add: truthy_def demo_reads)
  have c: "filter (\<lambda>n. truthy (read_file_content demo_decode demo_repo n)) README_NAMES = [''README.rst'']"
    by (simp add: README_NAMES_def truthy_def demo_reads)
  have g: "demo_github (if ([]::string) \<noteq> [] then Some [] else None) ''octocat/Hello-World''
             = Inr demo_repo"
    by (simp add: demo_github_def)
  from digest_contents_nonempty_bounded[OF f] demo_parse g
  have "important_files dg = List.map_filter (important_entry demo_decode demo_repo) IMPORTANT_FILES"
    by auto
  with f i e m c show ?thesis
    by (intro exI[of _ dg]) simp
qed

lemma build_nodes_failed_branch:
  assumes "cf_type item = ''dir''" "depth < MAX_TREE_DEPTH - 1"
    and "get_contents r (cf_path item) = Inl (GithubException d m)"
    and "build_nodes r items depth = Inr t"
  shows "build_nodes r (item # items) depth
           = Inr (Node (cf_name item) ''dir'' (cf_path item) (Some []) # t)"
proof -
  have "build_tree r (cf_path item) (depth + 1) = Inr []"
    using assms(3) by (rule build_tree_listing_fails)
  then show ?thesis using assms(1,2,4) by (simp add: Let_def del: build_tree.simps)
qed

lemma absent_file_omitted:
  assumes "read_file_content decode r p = None"
  shows "p \<notin> fst ` set (read_important decode r IMPORTANT_FILES [])"
proof
  assume "p \<in> fst ` set (read_important decode r IMPORTANT_FILES [])"
  then obtain c where "(p, c) \<in> set (List.map_filter (important_entry decode r) IMPORTANT_FILES)"
    unfolding important_files_eq by auto
  then obtain x where "important_entry decode r x = Some (p, c)"
    unfolding in_set_map_filter by blast
  then have "read_file_content decode r p = Some c"
    by (auto simp: important_entry_def split: option.splits if_splits)
  then show False using assms by simp
qed

text \<open>
  Claim C2, as amended. When \<open>get_repo\<close> raises the client's exception with a dict
  as data, \<open>fetch_repo_data\<close> fails with the \<open>ValueError\<close> that names the
  repository. Once the handle is resolved and the topics and languages calls have
  answered, and as long as every listing call of the traversal answers with a listing
  or fails with the client's exception, a digest is returned whatever the reads of the
  allow-listed files and of the README candidates do: a path that could not be read is
  not a key of \<open>important_files\<close>, and a directory whose listing failed with the
  client's exception gets empty \<open>children\<close>.
\<close>

theorem fetch_repo_data_failure_modes:
  "(parse_repo_url url = Inr full_name
      \<and> github (if tok \<noteq> [] then Some tok else None) full_name
          = Inl (GithubException (DataDict message) m)
     \<longrightarrow> fetch_repo_data github decode url tok =
           Inl (ValueError (''Could not access repository '' @ [CHR 0x27] @ full_name
                  @ [CHR 0x27] @ '': ''
                  @ (case message of Some msg \<Rightarrow> msg | None \<Rightarrow> m))))
   \<and> (parse_repo_url url = Inr full_name
      \<and> github (if tok \<noteq> [] then Some tok else None) full_name = Inr r
      \<and> get_topics r = Inr topics \<and> get_languages r = Inr langs
      \<and> (\<forall>p\<in>set (listing_calls r [] 0). listing_or_api_error (get_contents r p))
     \<longrightarrow> (\<exists>dg. fetch_repo_data github decode url tok = Inr dg
            \<and> (\<forall>p. read_file_content decode r p = None \<longrightarrow> p \<notin> fst ` set (important_files dg))))
   \<and> (cf_type item = ''dir'' \<and> depth < MAX_TREE_DEPTH - 1
      \<and> get_contents r (cf_path item) = Inl (GithubException d' m')
      \<and> build_nodes r items depth = Inr t
     \<longrightarrow> build_nodes r (item # items) depth
           = Inr (Node (cf_name item) ''dir'' (cf_path item) (Some []) # t))"
proof (intro conjI impI)
  assume "parse_repo_url url = Inr full_name
      \<and> github (if tok \<noteq> [] then Some tok else None) full_name
          = Inl (GithubException (DataDict message) m)"
  then show "fetch_repo_data github decode url tok =
           Inl (ValueError (''Could not access repository '' @ [CHR 0x27] @ full_name
                  @ [CHR 0x27] @ '': ''
                  @ (case message of Some msg \<Rightarrow> msg | None \<Rightarrow> m)))"
    using fetch_repo_data_no_access by blast
next
  assume h: "parse_repo_url url = Inr full_name
      \<and> github (if tok \<noteq> [] then Some tok else None) full_name = Inr r
      \<and> get_topics r = Inr topics \<and> get_languages r = Inr langs
      \<and> (\<forall>p\<in>set (listing_calls r [] 0). listing_or_api_error (get_contents r p))"
  then obtain tree where tree: "build_tree r [] 0 = Inr tree"
    using build_succeeds(1)[of r "[]" 0] by blast
  from h tree fetch_repo_data_returns[where url = url and full_name = full_name
      and github = github and tok = tok and r = r and topics = topics and langs = langs
      and tree = tree and decode = decode]
  obtain dg where dg: "fetch_repo_data github decode url tok = Inr dg"
    "important_files dg = read_important decode r IMPORTANT_FILES []"
    by blast
  then show "\<exists>dg. fetch_repo_data github decode url tok = Inr dg
            \<and> (\<forall>p. read_file_content decode r p = None \<longrightarrow> p \<notin> fst ` set (important_files dg))"
    using absent_file_omitted[of decode r] by auto
next
  assume "cf_type item = ''dir'' \<and> depth < MAX_TREE_DEPTH - 1
      \<and> get_contents r (cf_path item) = Inl (GithubException d' m')
      \<and> build_nodes r items depth = Inr t"
  then show "build_nodes r (item # items) depth
           = Inr (Node (cf_name item) ''dir'' (cf_path item) (Some []) # t)"
    using build_nodes_failed_branch by blast
qed

lemma timeout_file_calls:
  "listing_calls (timeout_at ''setup.py'') [] 0 = [[], ''src'', ''src/app'']"
  by (simp add: timeout_at_def demo_contents_def entry_def MAX_TREE_DEPTH_def)

lemma timeout_file_listings:
  "list_all (\<lambda>p. listing_or_api_error (get_contents (timeout_at ''setup.py'') p))
     [[], ''src'', ''src/app'']"
  by (simp add: timeout_at_def demo_contents_def)


theorem fetch_repo_data_failure_modes_witness:
  "fetch_repo_data demo_github demo_decode ''octocat/Spoon-Knife'' []
     = Inl (ValueError (''Could not access repository '' @ [CHR 0x27] @ ''octocat/Spoon-Knife''
                          @ [CHR 0x27] @ '': Not Found''))
   \<and> get_contents (timeout_at ''setup.py'') ''setup.py'' = Inl read_timeout
   \<and> (\<exists>dg. fetch_repo_data (timeout_github ''setup.py'') demo_decode ''octocat/Hello-World'' []
               = Inr dg
          \<and> ''setup.py'' \<notin> fst ` set (important_files dg))
   \<and> build_nodes demo_repo [entry ''docs'' ''dir'' ''docs''] 0
        = Inr [Node ''docs'' ''dir'' ''docs'' (Some [])]"
proof -
  have p1: "parse_repo_url ''octocat/Spoon-Knife'' = Inr ''octocat/Spoon-Knife''"
    by (simp add: parse_repo_url_def clean_url_def strip_def lstrip_def rstrip_def
      rstrip_slash_def isspace_def endswith_def match_full_url_def startswith_def
      owner_repo_at_def match_owner_repo_def)
  have g1: "demo_github (if ([]::string) \<noteq> [] then Some [] else None) ''octocat/Spoon-Knife''
              = Inl (GithubException (DataDict (Some ''Not Found'')) ''404 Not Found'')"
    by (simp add: demo_github_def not_found_def)
  have a: "fetch_repo_data demo_github demo_decode ''octocat/Spoon-Knife'' []
     = Inl (ValueError (''Could not access repository '' @ [CHR 0x27] @ ''octocat/Spoon-Knife''
                          @ [CHR 0x27] @ '': Not Found''))"
    using fetch_repo_data_failure_modes[where url = "''octocat/Spoon-Knife''"
        and full_name = "''octocat/Spoon-Knife''" and github = demo_github and tok = "[]"
        and message = "Some ''Not Found''" and m = "''404 Not Found''" and decode = demo_decode,
        THEN conjunct1] p1 g1
    by simp
  let ?r = "timeout_at ''setup.py''"
  have g2: "timeout_github ''setup.py'' (if ([]::string) \<noteq> [] then Some [] else None)
              ''octocat/Hello-World'' = Inr ?r"
    by (simp add: timeout_github_def)
  have t: "get_topics ?r = Inr [''demo'']" "get_languages ?r = Inr [(''Python'', 1234)]"
    by (simp_all add: timeout_at_def demo_repo_def)
  have gs: "get_contents ?r ''setup.py'' = Inl read_timeout"
    by (simp add: timeout_at_def)
  have s: "read_file_content demo_decode ?r ''setup.py'' = None"
    by (simp add: read_file_content_def gs)
  have l: "\<forall>p\<in>set (listing_calls ?r [] 0). listing_or_api_error (get_contents ?r p)"
    unfolding timeout_file_calls using timeout_file_listings by (simp only: list_all_iff)
  have b: "\<exists>dg. fetch_repo_data (timeout_github ''setup.py'') demo_decode ''octocat/Hello-World'' []
               = Inr dg
          \<and> ''setup.py'' \<notin> fst ` set (important_files dg)"
  proof -
    note T = fetch_repo_data_failure_modes[where url = "''octocat/Hello-World''"
        and full_name = "''octocat/Hello-World''" and github = "timeout_github ''setup.py''"
        and tok = "[]" and r = "?r" and topics = "[''demo'']" and langs = "[(''Python'', 1234)]"
        and decode = demo_decode, THEN conjunct2, THEN conjunct1]
    have "\<exists>dg. fetch_repo_data (timeout_github ''setup.py'') demo_decode ''octocat/Hello-World'' []
                 = Inr dg
            \<and> (\<forall>p. read_file_content demo_decode ?r p = None
                   \<longrightarrow> p \<notin> fst ` set (important_files dg))"
      by (rule T[THEN mp]) (intro conjI demo_parse g2 t l)
    then obtain dg where
      1: "fetch_repo_data (timeout_github ''setup.py'') demo_decode ''octocat/Hello-World'' [] = Inr dg"
      and 2: "\<forall>p. read_file_content demo_decode ?r p = None
                \<longrightarrow> p \<notin> fst ` set (important_files dg)"
      by (elim exE conjE)
    have 3: "''setup.py'' \<notin> fst ` set (important_files dg)"
      using 2[rule_format, OF s] .
    show ?thesis
      by (rule exI[of _ dg]) (intro conjI 1 3)
  qed
  have e: "cf_type (entry ''docs'' ''dir'' ''docs'') = ''dir''"
    "cf_path (entry ''docs'' ''dir'' ''docs'') = ''docs''"
    "cf_name (entry ''docs'' ''dir'' ''docs'') = ''docs''"
    by (simp_all add: entry_def)
  have gd: "get_contents demo_repo ''docs''
              = Inl (GithubException (DataDict (Some ''Not Found'')) ''404 Not Found'')"
    by (simp add: demo_repo_def demo_contents_def not_found_def)
  have c: "build_nodes demo_repo [entry ''docs'' ''dir'' ''docs''] 0
        = Inr [Node ''docs'' ''dir'' ''docs'' (Some [])]"
    using fetch_repo_data_failure_modes[where item = "entry ''docs'' ''dir'' ''docs''"
        and depth = 0 and r = demo_repo and d' = "DataDict (Some ''Not Found'')"
        and m' = "''404 Not Found''" and items = "[]" and t = "[]",
        THEN conjunct2, THEN conjunct2] e gd
    by (simp add: MAX_TREE_DEPTH_def del: build_tree.simps build_nodes.simps(2))
  show ?thesis by (intro conjI a gs b c)
qed

text \<open>
  Claim C2 as stated fails, in three ways. With the handle resolved, a refused topics
  call is not absorbed; a listing call that ends in a transport error is not absorbed
  either, since \<open>_build_tree\<close> catches the client's exception only; and when
  \<open>get_repo\<close> fails with data that is no dict, the handler itself raises, so that
  the failure is no \<open>ValueError\<close>.
\<close>

theorem fetch_repo_data_failures_surface:
  "flaky_github None ''octocat/Hello-World'' = Inr flaky_repo
   \<and> get_topics flaky_repo = Inl rate_limited
   \<and> fetch_repo_data flaky_github demo_decode ''octocat/Hello-World'' [] = Inl rate_limited
   \<and> timeout_github ''src'' None ''octocat/Hello-World'' = Inr (timeout_at ''src'')
   \<and> get_contents (timeout_at ''src'') ''src'' = Inl read_timeout
   \<and> fetch_repo_data (timeout_github ''src'') demo_decode ''octocat/Hello-World'' []
       = Inl read_timeout
   \<and> fetch_repo_data gateway_github demo_decode ''octocat/Hello-World'' []
       = Inl (OtherException ''AttributeError: object has no attribute get'')"
proof -
  have 1: "fetch_repo_data flaky_github demo_decode ''octocat/Hello-World'' [] = Inl rate_limited"
    by (simp add: fetch_repo_data_def demo_parse flaky_github_def flaky_repo_def rate_limited_def
        del: build_tree.simps)
  have b: "build_tree (timeout_at ''src'') [] 0 = Inl read_timeout"
    by (simp add: timeout_at_def demo_contents_def entry_def MAX_TREE_DEPTH_def read_timeout_def)
  have 2: "fetch_repo_data (timeout_github ''src'') demo_decode ''octocat/Hello-World'' []
             = Inl read_timeout"
  proof -
    have t: "get_topics (timeout_at ''src'') = Inr [''demo'']"
      "get_languages (timeout_at ''src'') = Inr [(''Python'', 1234)]"
      by (simp_all add: timeout_at_def demo_repo_def)
    show ?thesis
      unfolding fetch_repo_data_def demo_parse
      by (simp add: timeout_github_def b t del: build_tree.simps)
  qed
  have 3: "fetch_repo_data gateway_github demo_decode ''octocat/Hello-World'' []
             = Inl (OtherException ''AttributeError: object has no attribute get'')"
    by (simp add: fetch_repo_data_def demo_parse gateway_github_def)
  show ?thesis
    using 1 2 3 by (simp add: flaky_github_def flaky_repo_def timeout_github_def timeout_at_def)
qed

section \<open>Properties of the prompt templates\<close>

lemma parse_template_lit:
  "brace_free a \<Longrightarrow>
   parse_template (a @ rest) =
     (case parse_template rest of Inl e \<Rightarrow> Inl e | Inr ps \<Rightarrow> Inr (map Lit a @ ps))"
  by (induction a) (auto simp: brace_free_def split: sum.splits)

lemma parse_template_field:
  assumes "brace_free name" "name \<noteq> []"
  shows "parse_template (CHR ''{'' # name @ CHR ''}'' # rest) =
           (case parse_template rest of Inl e \<Rightarrow> Inl e | Inr ps \<Rightarrow> Inr (Field name # ps))"
proof -
  obtain c cs where n: "name = c # cs" using assms(2) by (cases name) auto
  have c: "c \<noteq> CHR ''{''" using assms(1) n by (auto simp: brace_free_def)
  have d: "dropWhile (\<lambda>x. x \<noteq> CHR ''}'') (name @ CHR ''}'' # rest) = CHR ''}'' # rest"
    using assms(1) by (intro dropWhile_skip) (auto simp: brace_free_def)
  have t: "takeWhile (\<lambda>x. x \<noteq> CHR ''}'') (name @ CHR ''}'' # rest) = name"
    using assms(1) by (intro takeWhile_stop) (auto simp: brace_free_def)
  show ?thesis
    using c d t unfolding n by (simp split: sum.splits)
qed

lemma render_lit:
  "render vars (map Lit a @ ps) =
     (case render vars ps of Inl e \<Rightarrow> Inl e | Inr s \<Rightarrow> Inr (a @ s))"
  by (induction a) (auto split: sum.splits)

lemma format_template_lit: "brace_free a \<Longrightarrow> format_template vars a = Inr a"
  using parse_template_lit[of a "[]"] render_lit[of vars a "[]"]
  by (simp add: format_template_def)

lemma format_template_field:
  assumes "brace_free a" "brace_free name" "name \<noteq> []" "map_of vars name = Some v"
  shows "format_template vars (a @ CHR ''{'' # name @ CHR ''}'' # rest) =
           (case format_template vars rest of Inl e \<Rightarrow> Inl e | Inr s \<Rightarrow> Inr (a @ v @ s))"
proof -
  have p: "parse_template (a @ CHR ''{'' # name @ CHR ''}'' # rest) =
             (case parse_template rest of
                Inl e \<Rightarrow> Inl e
              | Inr ps \<Rightarrow> Inr (map Lit a @ Field name # ps))"
    unfolding parse_template_lit[OF assms(1)] parse_template_field[OF assms(2,3)]
    by (simp split: sum.splits)
  show ?thesis
  proof (cases "parse_template rest")
    case (Inl e)
    then show ?thesis by (simp add: format_template_def p del: parse_template.simps)
  next
    case (Inr ps)
    then show ?thesis
      using assms(4)
      by (simp add: format_template_def p render_lit del: parse_template.simps split: sum.splits)
  qed
qed


lemma SYSTEM_PROMPT_split:
  \<open>SYSTEM_PROMPT =
     system_text_0
     @ field ''style_instructions''
     @ system_text_1
     @ field ''custom_instructions_block''
     @ system_text_2\<close>
  by (simp add: SYSTEM_PROMPT_def field_def system_text_0_def system_text_1_def system_text_2_def)

lemma system_text_brace_free:
  "brace_free system_text_0"
  "brace_free system_text_1"
  "brace_free system_text_2"
  by (simp_all add: brace_free_def system_text_0_def system_text_1_def system_text_2_def)

lemma USER_TEMPLATE_split:
  \<open>USER_TEMPLATE =
     user_text_0
     @ field ''metadata''
     @ user_text_1
     @ field ''languages''
     @ user_text_2
     @ field ''file_tree''
     @ user_text_3
     @ field ''important_files''
     @ user_text_4
     @ field ''existing_readme''
     @ user_text_5\<close>
  by (simp add: USER_TEMPLATE_def field_def user_text_0_def user_text_1_def user_text_2_def user_text_3_def user_text_4_def user_text_5_def)

lemma user_text_brace_free:
  "brace_free user_text_0"
  "brace_free user_text_1"
  "brace_free user_text_2"
  "brace_free user_text_3"
  "brace_free user_text_4"
  "brace_free user_text_5"
  by (simp_all add: brace_free_def user_text_0_def user_text_1_def user_text_2_def user_text_3_def user_text_4_def user_text_5_def)

lemma ANALYZE_SYSTEM_PROMPT_split:
  \<open>ANALYZE_SYSTEM_PROMPT =
     analyze_system_text_0
     @ ''{{''
     @ analyze_system_text_1
     @ ''}}''
     @ analyze_system_text_2\<close>
  by (simp add: ANALYZE_SYSTEM_PROMPT_def field_def analyze_system_text_0_def analyze_system_text_1_def analyze_system_text_2_def)

lemma analyze_system_text_brace_free:
  "brace_free analyze_system_text_0"
  "brace_free analyze_system_text_1"
  "brace_free analyze_system_text_2"
  by (simp_all add: brace_free_def analyze_system_text_0_def analyze_system_text_1_def analyze_system_text_2_def)

lemma ANALYZE_USER_TEMPLATE_split:
  \<open>ANALYZE_USER_TEMPLATE =
     analyze_user_text_0
     @ field ''repo_name''
     @ analyze_user_text_1
     @ field ''existing_readme''
     @ analyze_user_text_2
     @ field ''metadata''
     @ analyze_user_text_3\<close>
  by (simp add: ANALYZE_USER_TEMPLATE_def field_def analyze_user_text_0_def analyze_user_text_1_def analyze_user_text_2_def analyze_user_text_3_def)

lemma analyze_user_text_brace_free:
  "brace_free analyze_user_text_0"
  "brace_free analyze_user_text_1"
  "brace_free analyze_user_text_2"
  "brace_free analyze_user_text_3"
  by (simp_all add: brace_free_def analyze_user_text_0_def analyze_user_text_1_def analyze_user_text_2_def analyze_user_text_3_def)



lemma format_template_field_simp:
  assumes "brace_free a" "brace_free name" "name \<noteq> []" "map_of vars name \<noteq> None"
  shows "format_template vars (a @ field name @ rest) =
           (case format_template vars rest of
              Inl e \<Rightarrow> Inl e
            | Inr s \<Rightarrow> Inr (a @ the (map_of vars name) @ s))"
proof -
  from assms(4) obtain v where v: "map_of vars name = Some v" by auto
  then have t: "the (map_of vars name) = v" by simp
  show ?thesis
    unfolding t using format_template_field[OF assms(1-3) v, of rest] by (simp add: field_def)
qed

lemma parse_template_open:
  "parse_template (CHR ''{'' # CHR ''{'' # rest) =
     (case parse_template rest of Inl e \<Rightarrow> Inl e | Inr ps \<Rightarrow> Inr (Lit (CHR ''{'') # ps))"
  by simp

lemma parse_template_close:
  "parse_template (CHR ''}'' # CHR ''}'' # rest) =
     (case parse_template rest of Inl e \<Rightarrow> Inl e | Inr ps \<Rightarrow> Inr (Lit (CHR ''}'') # ps))"
  by simp

lemma format_template_open:
  assumes "brace_free a"
  shows "format_template vars (a @ CHR ''{'' # CHR ''{'' # rest) =
           (case format_template vars rest of
              Inl e \<Rightarrow> Inl e
            | Inr s \<Rightarrow> Inr (a @ CHR ''{'' # s))"
  unfolding format_template_def parse_template_lit[OF assms] parse_template_open
  by (cases "parse_template rest") (simp_all add: render_lit split: sum.splits)

lemma format_template_close:
  assumes "brace_free a"
  shows "format_template vars (a @ CHR ''}'' # CHR ''}'' # rest) =
           (case format_template vars rest of
              Inl e \<Rightarrow> Inl e
            | Inr s \<Rightarrow> Inr (a @ CHR ''}'' # s))"
  unfolding format_template_def parse_template_lit[OF assms] parse_template_close
  by (cases "parse_template rest") (simp_all add: render_lit split: sum.splits)

lemma brace_free_names:
  "brace_free ''style_instructions''" "brace_free ''custom_instructions_block''"
  "brace_free ''metadata''" "brace_free ''languages''" "brace_free ''file_tree''"
  "brace_free ''important_files''" "brace_free ''existing_readme''" "brace_free ''repo_name''"
  by (simp_all add: brace_free_def)

lemma format_SYSTEM_PROMPT:
  "format_template [(''style_instructions'', si), (''custom_instructions_block'', cb)] SYSTEM_PROMPT
     = Inr (system_text_0 @ si @ system_text_1 @ cb @ system_text_2)"
  by (simp add: SYSTEM_PROMPT_split format_template_field_simp format_template_lit
      system_text_brace_free brace_free_names del: parse_template.simps)

lemma format_USER_TEMPLATE:
  "format_template [(''metadata'', m), (''languages'', l), (''file_tree'', f),
                    (''important_files'', i), (''existing_readme'', r)] USER_TEMPLATE
     = Inr (user_text_0 @ m @ user_text_1 @ l @ user_text_2 @ f @ user_text_3 @ i
            @ user_text_4 @ r @ user_text_5)"
  by (simp add: USER_TEMPLATE_split format_template_field_simp format_template_lit
      user_text_brace_free brace_free_names del: parse_template.simps)

lemma format_ANALYZE_SYSTEM_PROMPT:
  "format_template vars ANALYZE_SYSTEM_PROMPT
     = Inr (analyze_system_text_0 @ ''{'' @ analyze_system_text_1 @ ''}'' @ analyze_system_text_2)"
  by (simp add: ANALYZE_SYSTEM_PROMPT_split format_template_open format_template_close
      format_template_lit analyze_system_text_brace_free del: parse_template.simps)

lemma format_ANALYZE_USER_TEMPLATE:
  "format_template [(''repo_name'', n), (''existing_readme'', r), (''metadata'', m)]
       ANALYZE_USER_TEMPLATE
     = Inr (analyze_user_text_0 @ n @ analyze_user_text_1 @ r @ analyze_user_text_2 @ m
            @ analyze_user_text_3)"
  by (simp add: ANALYZE_USER_TEMPLATE_split format_template_field_simp format_template_lit
      analyze_user_text_brace_free brace_free_names del: parse_template.simps)

lemma parse_template_brace_free: "brace_free s \<Longrightarrow> parse_template s = Inr (map Lit s)"
  using parse_template_lit[of s "[]"] by simp

lemma brace_free_append [simp]: "brace_free (a @ b) \<longleftrightarrow> brace_free a \<and> brace_free b"
  by (auto simp: brace_free_def)

lemma brace_free_Nil [simp]: "brace_free []"
  by (simp add: brace_free_def)

lemma parse_USER_TEMPLATE: "\<exists>qs. parse_template USER_TEMPLATE = Inr qs"
  using format_USER_TEMPLATE[of m l f i r]
  by (cases "parse_template USER_TEMPLATE") (simp_all add: format_template_def)

lemma STYLES_lookup:
  "map_of STYLES ''minimal'' = Some style_minimal"
  "map_of STYLES ''detailed'' = Some style_detailed"
  "map_of STYLES ''awesome'' = Some style_awesome"
  "style \<notin> {''minimal'', ''detailed'', ''awesome''} \<Longrightarrow> map_of STYLES style = None"
  by (auto simp: STYLES_def)

lemma style_instructions_brace_free:
  "brace_free (style_instructions style_minimal)"
  "brace_free (style_instructions style_detailed)"
  "brace_free (style_instructions style_awesome)"
  by (simp_all add: brace_free_def style_minimal_def style_detailed_def style_awesome_def)

lemma build_chain_eq:
  "build_chain style ci =
     (let si = style_instructions (case map_of STYLES style of Some c \<Rightarrow> c | None \<Rightarrow> style_detailed);
          system_prompt = system_text_0 @ si @ system_text_1 @ custom_instructions_block ci
                          @ system_text_2
      in case parse_template system_prompt of
           Inl e \<Rightarrow> Inl e
         | Inr ps \<Rightarrow> Inr (system_prompt, USER_TEMPLATE))"
  using parse_USER_TEMPLATE
  by (auto simp: build_chain_def Let_def format_SYSTEM_PROMPT simp del: parse_template.simps
      split: sum.splits)

lemma custom_block_brace_free: "brace_free ci \<Longrightarrow> brace_free (custom_instructions_block ci)"
  by (simp add: custom_instructions_block_def brace_free_def)

lemma build_chain_brace_free:
  assumes "brace_free ci"
    and "brace_free (style_instructions (case map_of STYLES style of Some c \<Rightarrow> c | None \<Rightarrow> style_detailed))"
  shows "build_chain style ci =
           Inr (system_text_0
                @ style_instructions (case map_of STYLES style of Some c \<Rightarrow> c | None \<Rightarrow> style_detailed)
                @ system_text_1 @ custom_instructions_block ci @ system_text_2, USER_TEMPLATE)"
  unfolding build_chain_eq Let_def
  using assms custom_block_brace_free[OF assms(1)] system_text_brace_free
  by (subst parse_template_brace_free) simp_all

text \<open>
  Claim C7. For every style key outside \<open>minimal\<close>, \<open>detailed\<close>, \<open>awesome\<close>
  (the empty key among them) and the same other inputs, \<open>build_chain\<close> gives what it
  gives for \<open>detailed\<close>, and so does the assembled generation prompt; the fallback
  adds no error: with custom instructions free of braces the chain is built.
\<close>

theorem style_fallback_identity:
  assumes "style \<notin> {''minimal'', ''detailed'', ''awesome''}"
  shows "build_chain style ci = build_chain ''detailed'' ci
         \<and> generation_prompt ev d style ci = generation_prompt ev d ''detailed'' ci
         \<and> (brace_free ci \<longrightarrow> (\<exists>system. build_chain style ci = Inr (system, USER_TEMPLATE)))"
proof -
  have 1: "build_chain style ci = build_chain ''detailed'' ci"
    using STYLES_lookup(4)[OF assms] by (simp add: build_chain_def STYLES_lookup(2))
  have 2: "generation_prompt ev d style ci = generation_prompt ev d ''detailed'' ci"
    by (simp add: generation_prompt_def 1)
  have 3: "brace_free ci \<longrightarrow> (\<exists>system. build_chain style ci = Inr (system, USER_TEMPLATE))"
    using build_chain_brace_free[of ci "''detailed''"] style_instructions_brace_free(2)
    by (simp add: 1 STYLES_lookup(2))
  show ?thesis using 1 2 3 by blast
qed

theorem style_fallback_identity_witness:
  "[] \<notin> {''minimal'', ''detailed'', ''awesome''}
   \<and> build_chain [] [] = build_chain ''detailed'' []
   \<and> generation_prompt demo_env bare_digest [] [] = generation_prompt demo_env bare_digest ''detailed'' []
   \<and> brace_free []
   \<and> (\<exists>system. build_chain [] [] = Inr (system, USER_TEMPLATE))"
proof -
  have n: "[] \<notin> {''minimal'', ''detailed'', ''awesome''}" by simp
  have b: "brace_free []" by (simp add: brace_free_def)
  from style_fallback_identity[OF n, of "[]" demo_env bare_digest] b
  have "build_chain [] [] = build_chain ''detailed'' []"
    and "generation_prompt demo_env bare_digest [] [] = generation_prompt demo_env bare_digest ''detailed'' []"
    and "\<exists>system. build_chain [] [] = Inr (system, USER_TEMPLATE)"
    by blast+
  with n b show ?thesis by (intro conjI)
qed

lemma contains_mid: "contains (a @ x @ b) x"
  unfolding contains_def by blast

lemma format_messages_generation:
  assumes "brace_free system"
  shows "format_messages (generation_vars ev d) (system, USER_TEMPLATE) =
           Inr (system,
                user_text_0 @ json_dumps_metadata ev (metadata d)
                @ user_text_1 @ json_dumps_languages ev (languages d)
                @ user_text_2 @ (if file_tree d \<noteq> [] then file_tree d else ''No file tree available'')
                @ user_text_3 @ format_important_files (important_files d)
                @ user_text_4 @ or_default (existing_readme d) ''_No existing README found._''
                @ user_text_5)"
  unfolding format_messages_def generation_vars_def
  by (simp add: format_template_lit[OF assms] format_USER_TEMPLATE del: parse_template.simps)

text \<open>
  Claim C9. For the style \<open>minimal\<close>, no custom instructions (none, or only white
  space) and a digest without README, the prompt that \<open>generate_readme\<close> assembles
  and sends has a human message that contains \<open>_No existing README found._\<close> and a
  system message that contains the instruction block of the minimal style verbatim.
\<close>

theorem minimal_prompt_without_readme:
  assumes "\<not> truthy (existing_readme d)" and "strip custom_instructions = []"
  shows "\<exists>system human.
           generation_prompt ev d ''minimal'' custom_instructions = Inr (system, human)
           \<and> snd (generate_readme ev d ''minimal'' custom_instructions) = [(system, human)]
           \<and> contains human ''_No existing README found._''
           \<and> contains system (style_instructions style_minimal)"
proof -
  let ?system = "system_text_0 @ style_instructions style_minimal @ system_text_1 @ system_text_2"
  let ?human = "user_text_0 @ json_dumps_metadata ev (metadata d)
                @ user_text_1 @ json_dumps_languages ev (languages d)
                @ user_text_2 @ (if file_tree d \<noteq> [] then file_tree d else ''No file tree available'')
                @ user_text_3 @ format_important_files (important_files d)
                @ user_text_4 @ ''_No existing README found._'' @ user_text_5"
  have cb: "custom_instructions_block custom_instructions = []"
    using assms(2) by (simp add: custom_instructions_block_def)
  have bf: "brace_free ?system"
    using system_text_brace_free style_instructions_brace_free(1) by simp
  have bc: "build_chain ''minimal'' custom_instructions = Inr (?system, USER_TEMPLATE)"
    unfolding build_chain_eq Let_def cb
    using bf by (simp add: STYLES_lookup(1) parse_template_brace_free del: parse_template.simps)
  have r: "or_default (existing_readme d) ''_No existing README found._'' = ''_No existing README found._''"
    using assms(1) by (auto simp: truthy_def or_default_def split: option.splits)
  have gp: "generation_prompt ev d ''minimal'' custom_instructions = Inr (?system, ?human)"
    unfolding generation_prompt_def bc using format_messages_generation[OF bf, of ev d]
    by (simp add: r)
  have calls: "snd (generate_readme ev d ''minimal'' custom_instructions) = [(?system, ?human)]"
    unfolding generate_readme_def gp by (simp split: sum.splits)
  have c1: "contains ?human ''_No existing README found._''"
    using contains_mid[of "user_text_0 @ json_dumps_metadata ev (metadata d)
                @ user_text_1 @ json_dumps_languages ev (languages d)
                @ user_text_2 @ (if file_tree d \<noteq> [] then file_tree d else ''No file tree available'')
                @ user_text_3 @ format_important_files (important_files d)
                @ user_text_4" "''_No existing README found._''" user_text_5]
    by simp
  have c2: "contains ?system (style_instructions style_minimal)"
    using contains_mid[of system_text_0 "style_instructions style_minimal"
        "system_text_1 @ system_text_2"] by simp
  show ?thesis using gp calls c1 c2 by blast
qed

theorem minimal_prompt_without_readme_witness:
  "\<not> truthy (existing_readme bare_digest) \<and> strip [] = []
   \<and> (\<exists>system human.
           generation_prompt demo_env bare_digest ''minimal'' [] = Inr (system, human)
           \<and> snd (generate_readme demo_env bare_digest ''minimal'' []) = [(system, human)]
           \<and> contains human ''_No existing README found._''
           \<and> contains system (style_instructions style_minimal))"
proof -
  have t: "\<not> truthy (existing_readme bare_digest)"
    by (simp add: truthy_def bare_digest_def)
  have s: "strip [] = []"
    by (simp add: strip_def lstrip_def rstrip_def)
  show ?thesis
    using minimal_prompt_without_readme[OF t s, of demo_env] t s by simp
qed

section \<open>Properties of the analysis endpoint\<close>

text \<open>
  Claim C6. When the digest has no README (\<open>None\<close> or empty), the analysis endpoint
  refuses with the client error 400 whose message says that there is nothing to
  analyze, and no prompt is sent to the completion service: the list of calls is empty
  and the outcome is the same whatever the service would answer.
\<close>

theorem analyze_refuses_without_readme:
  assumes "fetch_repo_data (env_github ev) (env_decode ev) (req_repo_url request)
             (or_default (req_github_token request) (settings_github_token ev)) = Inr d"
    and "\<not> truthy (existing_readme d)"
  shows "analyze ev request =
           (Inl (HTTPException 400 (''No existing README found in '' @ md_full_name (metadata d)
                                      @ ''. Nothing to analyze.'')), [])
         \<and> (\<forall>service. analyze (ev\<lparr> env_llm := service \<rparr>) request = analyze ev request)"
proof -
  have 1: "analyze ev request =
           (Inl (HTTPException 400 (''No existing README found in '' @ md_full_name (metadata d)
                                      @ ''. Nothing to analyze.'')), [])"
    using assms by (simp add: analyze_def Let_def)
  have 2: "analyze (ev\<lparr> env_llm := service \<rparr>) request = analyze ev request" for service
    using assms by (simp add: analyze_def Let_def)
  show ?thesis using 1 2 by blast
qed

lemma dark_reads: "read_file_content dcd dark_repo p = None"
  by (simp add: read_file_content_def dark_repo_def)

lemma dark_find_readme: "find_readme dcd dark_repo ns = None"
  by (induction ns) (simp_all add: dark_reads)

lemma dark_fetch:
  "\<exists>dg. fetch_repo_data dark_github demo_decode ''octocat/Hello-World'' [] = Inr dg
        \<and> existing_readme dg = None \<and> md_full_name (metadata dg) = ''octocat/Hello-World''"
proof -
  have g: "dark_github (if ([]::string) \<noteq> [] then Some [] else None) ''octocat/Hello-World''
             = Inr dark_repo"
    by (simp add: dark_github_def)
  have t: "get_topics dark_repo = Inr [''demo'']" "get_languages dark_repo = Inr [(''Python'', 1234)]"
    "repo_full_name dark_repo = ''octocat/Hello-World''"
    by (simp_all add: dark_repo_def demo_repo_def)
  have b: "build_tree dark_repo [] 0 = Inr []"
    by (simp add: dark_repo_def rate_limited_def MAX_TREE_DEPTH_def)
  from fetch_repo_data_returns[where github = dark_github and tok = "[]" and decode = demo_decode,
      OF demo_parse g t(1,2) b]
  show ?thesis by (auto simp: dark_find_readme t(3) simp del: format_tree.simps)
qed

theorem analyze_refuses_without_readme_witness:
  "analyze dark_env demo_request =
     (Inl (HTTPException 400 ''No existing README found in octocat/Hello-World. Nothing to analyze.''), [])
   \<and> analyze (dark_env\<lparr> env_llm := (\<lambda>system human. Inl (OtherException ''unreachable'')) \<rparr>) demo_request
       = analyze dark_env demo_request"
proof -
  from dark_fetch obtain dg where
    f: "fetch_repo_data dark_github demo_decode ''octocat/Hello-World'' [] = Inr dg"
    and e: "existing_readme dg = None" and n: "md_full_name (metadata dg) = ''octocat/Hello-World''"
    by blast
  have f': "fetch_repo_data (env_github dark_env) (env_decode dark_env) (req_repo_url demo_request)
             (or_default (req_github_token demo_request) (settings_github_token dark_env)) = Inr dg"
    using f by (simp add: dark_env_def demo_env_def demo_request_def or_default_def)
  have t: "\<not> truthy (existing_readme dg)" by (simp add: e truthy_def)
  from analyze_refuses_without_readme[OF f' t] show ?thesis
    by (simp add: n)
qed

lemma analysis_prompt_eq:
  "analysis_prompt ev d =
     Inr (analyze_system_text_0 @ ''{'' @ analyze_system_text_1 @ ''}'' @ analyze_system_text_2,
          analyze_user_text_0 @ md_full_name (metadata d)
          @ analyze_user_text_1 @ or_default (existing_readme d) ''_No README found._''
          @ analyze_user_text_2 @ json_dumps_metadata ev (metadata d)
          @ analyze_user_text_3)"
  unfolding analysis_prompt_def format_messages_def analysis_vars_def
  by (simp add: format_ANALYZE_SYSTEM_PROMPT format_ANALYZE_USER_TEMPLATE del: parse_template.simps)

lemma make_response_dict:
  assumes "validate_int ev (case map_of kvs ''score'' of Some v \<Rightarrow> v | None \<Rightarrow> JInt 0) = Some sc"
    and "validate_str ev (case map_of kvs ''summary'' of Some v \<Rightarrow> v | None \<Rightarrow> JStr []) = Some su"
    and "validate_str_list ev (case map_of kvs ''strengths'' of Some v \<Rightarrow> v | None \<Rightarrow> JList []) = Some st"
    and "validate_str_list ev (case map_of kvs ''improvements'' of Some v \<Rightarrow> v | None \<Rightarrow> JList []) = Some im"
    and "validate_str_list ev (case map_of kvs ''missing_sections'' of Some v \<Rightarrow> v | None \<Rightarrow> JList []) = Some ms"
  shows "make_response ev (JDict kvs) name =
           Inr \<lparr> score = sc, summary = su, strengths = st, improvements = im,
                 missing_sections = ms, repo_name = name \<rparr>"
  using assms by (simp add: make_response_def dict_get_def)

lemma field_validates:
  assumes "validate dflt = Some z" and "\<forall>v. map_of kvs key = Some v \<longrightarrow> validate v \<noteq> None"
  shows "\<exists>x. validate (case map_of kvs key of Some v \<Rightarrow> v | None \<Rightarrow> dflt) = Some x
             \<and> (map_of kvs key = None \<longrightarrow> x = z)"
  using assms by (cases "map_of kvs key") auto


text \<open>
  Claim C5, as amended. When the output parser turns the completion into a JSON object
  whose present fields pass the validation of the response model, \<open>analyze\<close> returns
  a verdict, and each of the five fields whose key is missing has its default:
  \<open>strengths = []\<close>, and likewise \<open>0\<close>, the empty string and the empty list for
  the others. When the output parser rejects the completion (it raises), \<open>analyze\<close>
  fails with the HTTP error that its handlers make of the parser's exception, and when
  the parsed value is not an object it fails with the error 500 of the missing
  \<open>get\<close>; in both cases no verdict is returned.
\<close>

theorem analysis_defaulting_and_hard_failure:
  "(fetch_repo_data (env_github ev) (env_decode ev) (req_repo_url request)
        (or_default (req_github_token request) (settings_github_token ev)) = Inr d
      \<and> truthy (existing_readme d)
      \<and> analysis_prompt ev d = Inr (system, human)
      \<and> env_llm ev system human = Inr reply
      \<and> json_output_parser ev reply = Inr (JDict kvs)
      \<and> validate_int ev (JInt 0) = Some 0
      \<and> validate_str ev (JStr []) = Some []
      \<and> validate_str_list ev (JList []) = Some []
      \<and> (\<forall>v. map_of kvs ''score'' = Some v \<longrightarrow> validate_int ev v \<noteq> None)
      \<and> (\<forall>v. map_of kvs ''summary'' = Some v \<longrightarrow> validate_str ev v \<noteq> None)
      \<and> (\<forall>v. map_of kvs ''strengths'' = Some v \<longrightarrow> validate_str_list ev v \<noteq> None)
      \<and> (\<forall>v. map_of kvs ''improvements'' = Some v \<longrightarrow> validate_str_list ev v \<noteq> None)
      \<and> (\<forall>v. map_of kvs ''missing_sections'' = Some v \<longrightarrow> validate_str_list ev v \<noteq> None)
     \<longrightarrow> (\<exists>response. analyze ev request = (Inr response, [(system, human)])
            \<and> (map_of kvs ''strengths'' = None \<longrightarrow> strengths response = [])
            \<and> (map_of kvs ''score'' = None \<longrightarrow> score response = 0)
            \<and> (map_of kvs ''summary'' = None \<longrightarrow> summary response = [])
            \<and> (map_of kvs ''improvements'' = None \<longrightarrow> improvements response = [])
            \<and> (map_of kvs ''missing_sections'' = None \<longrightarrow> missing_sections response = [])))
   \<and> (fetch_repo_data (env_github ev) (env_decode ev) (req_repo_url request)
        (or_default (req_github_token request) (settings_github_token ev)) = Inr d
      \<and> truthy (existing_readme d)
      \<and> analysis_prompt ev d = Inr (system, human)
      \<and> env_llm ev system human = Inr reply
      \<and> json_output_parser ev reply = Inl e
     \<longrightarrow> analyze ev request = (Inl (analyze_handler e), [(system, human)]))
   \<and> (fetch_repo_data (env_github ev) (env_decode ev) (req_repo_url request)
        (or_default (req_github_token request) (settings_github_token ev)) = Inr d
      \<and> truthy (existing_readme d)
      \<and> analysis_prompt ev d = Inr (system, human)
      \<and> env_llm ev system human = Inr reply
      \<and> json_output_parser ev reply = Inr parsed
      \<and> (\<forall>kvs. parsed \<noteq> JDict kvs)
     \<longrightarrow> analyze ev request =
           (Inl (HTTPException 500
                   ''Failed to analyze README: AttributeError: object has no attribute get''),
            [(system, human)]))"
proof (intro conjI impI)
  assume h: "fetch_repo_data (env_github ev) (env_decode ev) (req_repo_url request)
        (or_default (req_github_token request) (settings_github_token ev)) = Inr d
      \<and> truthy (existing_readme d)
      \<and> analysis_prompt ev d = Inr (system, human)
      \<and> env_llm ev system human = Inr reply
      \<and> json_output_parser ev reply = Inr (JDict kvs)
      \<and> validate_int ev (JInt 0) = Some 0
      \<and> validate_str ev (JStr []) = Some []
      \<and> validate_str_list ev (JList []) = Some []
      \<and> (\<forall>v. map_of kvs ''score'' = Some v \<longrightarrow> validate_int ev v \<noteq> None)
      \<and> (\<forall>v. map_of kvs ''summary'' = Some v \<longrightarrow> validate_str ev v \<noteq> None)
      \<and> (\<forall>v. map_of kvs ''strengths'' = Some v \<longrightarrow> validate_str_list ev v \<noteq> None)
      \<and> (\<forall>v. map_of kvs ''improvements'' = Some v \<longrightarrow> validate_str_list ev v \<noteq> None)
      \<and> (\<forall>v. map_of kvs ''missing_sections'' = Some v \<longrightarrow> validate_str_list ev v \<noteq> None)"
  from h have d0: "validate_int ev (JInt 0) = Some 0" "validate_str ev (JStr []) = Some []"
    "validate_str_list ev (JList []) = Some []"
    and p1: "\<forall>v. map_of kvs ''score'' = Some v \<longrightarrow> validate_int ev v \<noteq> None"
    and p2: "\<forall>v. map_of kvs ''summary'' = Some v \<longrightarrow> validate_str ev v \<noteq> None"
    and p3: "\<forall>v. map_of kvs ''strengths'' = Some v \<longrightarrow> validate_str_list ev v \<noteq> None"
    and p4: "\<forall>v. map_of kvs ''improvements'' = Some v \<longrightarrow> validate_str_list ev v \<noteq> None"
    and p5: "\<forall>v. map_of kvs ''missing_sections'' = Some v \<longrightarrow> validate_str_list ev v \<noteq> None"
    by simp_all
  from field_validates[OF d0(1) p1]
  obtain sc where sc: "validate_int ev (case map_of kvs ''score'' of Some v \<Rightarrow> v | None \<Rightarrow> JInt 0) = Some sc"
    "map_of kvs ''score'' = None \<longrightarrow> sc = 0" by (elim exE conjE)
  from field_validates[OF d0(2) p2]
  obtain su where su: "validate_str ev (case map_of kvs ''summary'' of Some v \<Rightarrow> v | None \<Rightarrow> JStr []) = Some su"
    "map_of kvs ''summary'' = None \<longrightarrow> su = []" by (elim exE conjE)
  from field_validates[OF d0(3) p3]
  obtain st where st: "validate_str_list ev (case map_of kvs ''strengths'' of Some v \<Rightarrow> v | None \<Rightarrow> JList []) = Some st"
    "map_of kvs ''strengths'' = None \<longrightarrow> st = []" by (elim exE conjE)
  from field_validates[OF d0(3) p4]
  obtain im where im: "validate_str_list ev (case map_of kvs ''improvements'' of Some v \<Rightarrow> v | None \<Rightarrow> JList []) = Some im"
    "map_of kvs ''improvements'' = None \<longrightarrow> im = []" by (elim exE conjE)
  from field_validates[OF d0(3) p5]
  obtain ms where ms: "validate_str_list ev (case map_of kvs ''missing_sections'' of Some v \<Rightarrow> v | None \<Rightarrow> JList []) = Some ms"
    "map_of kvs ''missing_sections'' = None \<longrightarrow> ms = []" by (elim exE conjE)
  let ?r = "\<lparr> score = sc, summary = su, strengths = st, improvements = im,
             missing_sections = ms, repo_name = md_full_name (metadata d) \<rparr>"
  have m: "make_response ev (JDict kvs) (md_full_name (metadata d)) = Inr ?r"
    using sc(1) su(1) st(1) im(1) ms(1) by (rule make_response_dict)
  have a: "analyze_readme ev d = (Inr (JDict kvs), [(system, human)])"
    using h by (simp add: analyze_readme_def)
  have "analyze ev request = (Inr ?r, [(system, human)])"
    using h a m by (simp add: analyze_def Let_def)
  then show "\<exists>response. analyze ev request = (Inr response, [(system, human)])
            \<and> (map_of kvs ''strengths'' = None \<longrightarrow> strengths response = [])
            \<and> (map_of kvs ''score'' = None \<longrightarrow> score response = 0)
            \<and> (map_of kvs ''summary'' = None \<longrightarrow> summary response = [])
            \<and> (map_of kvs ''improvements'' = None \<longrightarrow> improvements response = [])
            \<and> (map_of kvs ''missing_sections'' = None \<longrightarrow> missing_sections response = [])"
    using sc(2) su(2) st(2) im(2) ms(2) by (intro exI[of _ ?r]) simp
next
  assume h: "fetch_repo_data (env_github ev) (env_decode ev) (req_repo_url request)
        (or_default (req_github_token request) (settings_github_token ev)) = Inr d
      \<and> truthy (existing_readme d)
      \<and> analysis_prompt ev d = Inr (system, human)
      \<and> env_llm ev system human = Inr reply
      \<and> json_output_parser ev reply = Inl e"
  have a: "analyze_readme ev d = (Inl e, [(system, human)])"
    using h by (simp add: analyze_readme_def)
  show "analyze ev request = (Inl (analyze_handler e), [(system, human)])"
    using h a by (simp add: analyze_def Let_def)
next
  assume h: "fetch_repo_data (env_github ev) (env_decode ev) (req_repo_url request)
        (or_default (req_github_token request) (settings_github_token ev)) = Inr d
      \<and> truthy (existing_readme d)
      \<and> analysis_prompt ev d = Inr (system, human)
      \<and> env_llm ev system human = Inr reply
      \<and> json_output_parser ev reply = Inr parsed
      \<and> (\<forall>kvs. parsed \<noteq> JDict kvs)"
  have a: "analyze_readme ev d = (Inr parsed, [(system, human)])"
    using h by (simp add: analyze_readme_def)
  have g: "dict_get parsed key dflt
             = Inl (OtherException ''AttributeError: object has no attribute get'')" for key dflt
    using h by (cases parsed) (simp_all add: dict_get_def)
  have m: "make_response ev parsed (md_full_name (metadata d))
             = Inl (OtherException ''AttributeError: object has no attribute get'')"
    by (simp add: make_response_def g)
  show "analyze ev request =
           (Inl (HTTPException 500
                   ''Failed to analyze README: AttributeError: object has no attribute get''),
            [(system, human)])"
    using h a m by (simp add: analyze_def Let_def)
qed


theorem analysis_defaulting_and_hard_failure_witness:
  "(\<exists>response calls. analyze demo_env demo_request = (Inr response, calls)
       \<and> strengths response = [] \<and> improvements response = []
       \<and> missing_sections response = [])
   \<and> (\<exists>calls. analyze chatty_env demo_request
          = (Inl (HTTPException 400 ''Invalid json output: Sure! Here is my analysis.''), calls))
   \<and> (\<exists>calls. analyze (answering array_completion) demo_request
          = (Inl (HTTPException 500
                    ''Failed to analyze README: AttributeError: object has no attribute get''),
             calls))"
proof -
  from demo_fetch obtain dg where
    f: "fetch_repo_data demo_github demo_decode ''octocat/Hello-World'' [] = Inr dg"
    and r: "existing_readme dg = Some ''Hello''"
    by blast
  have t: "truthy (existing_readme dg)" by (simp add: r truthy_def)
  let ?kvs = "[(''score'', JInt 80), (''summary'', JStr ''ok'')]"
  obtain system human where p: "analysis_prompt demo_env dg = Inr (system, human)"
    using analysis_prompt_eq[of demo_env dg] by blast
  have f1: "fetch_repo_data (env_github demo_env) (env_decode demo_env) (req_repo_url demo_request)
             (or_default (req_github_token demo_request) (settings_github_token demo_env)) = Inr dg"
    using f by (simp add: demo_env_def demo_request_def or_default_def)
  have l1: "env_llm demo_env system human = Inr demo_completion"
    by (simp add: demo_env_def)
  have j1: "json_output_parser demo_env demo_completion = Inr (JDict ?kvs)"
    by (simp add: demo_env_def demo_parser_def)
  have v: "validate_int demo_env (JInt 0) = Some 0" "validate_str demo_env (JStr []) = Some []"
    "validate_str_list demo_env (JList []) = Some []"
    by (simp_all add: demo_env_def)
  have q: "\<forall>v. map_of ?kvs ''score'' = Some v \<longrightarrow> validate_int demo_env v \<noteq> None"
    "\<forall>v. map_of ?kvs ''summary'' = Some v \<longrightarrow> validate_str demo_env v \<noteq> None"
    "\<forall>v. map_of ?kvs ''strengths'' = Some v \<longrightarrow> validate_str_list demo_env v \<noteq> None"
    "\<forall>v. map_of ?kvs ''improvements'' = Some v \<longrightarrow> validate_str_list demo_env v \<noteq> None"
    "\<forall>v. map_of ?kvs ''missing_sections'' = Some v \<longrightarrow> validate_str_list demo_env v \<noteq> None"
    by (simp_all add: demo_env_def)
  have missing: "map_of ?kvs ''strengths'' = None" "map_of ?kvs ''improvements'' = None"
    "map_of ?kvs ''missing_sections'' = None"
    by simp_all
  note T1 = analysis_defaulting_and_hard_failure[where ev = demo_env and request = demo_request
      and d = dg and system = system and human = human and reply = demo_completion
      and kvs = "?kvs", THEN conjunct1, THEN mp]
  have "\<exists>response. analyze demo_env demo_request = (Inr response, [(system, human)])
            \<and> (map_of ?kvs ''strengths'' = None \<longrightarrow> strengths response = [])
            \<and> (map_of ?kvs ''score'' = None \<longrightarrow> score response = 0)
            \<and> (map_of ?kvs ''summary'' = None \<longrightarrow> summary response = [])
            \<and> (map_of ?kvs ''improvements'' = None \<longrightarrow> improvements response = [])
            \<and> (map_of ?kvs ''missing_sections'' = None \<longrightarrow> missing_sections response = [])"
    by (rule T1) (intro conjI f1 t p l1 j1 v q)
  then obtain response where
    a: "analyze demo_env demo_request = (Inr response, [(system, human)])"
    and s1: "map_of ?kvs ''strengths'' = None \<longrightarrow> strengths response = []"
    and s2: "map_of ?kvs ''improvements'' = None \<longrightarrow> improvements response = []"
    and s3: "map_of ?kvs ''missing_sections'' = None \<longrightarrow> missing_sections response = []"
    by (elim exE conjE)
  have first: "\<exists>response calls. analyze demo_env demo_request = (Inr response, calls)
       \<and> strengths response = [] \<and> improvements response = []
       \<and> missing_sections response = []"
    using a s1[rule_format, OF missing(1)] s2[rule_format, OF missing(2)]
      s3[rule_format, OF missing(3)]
    by (intro exI[of _ response] exI[of _ "[(system, human)]"] conjI)
  obtain system' human' where p': "analysis_prompt chatty_env dg = Inr (system', human')"
    using analysis_prompt_eq[of chatty_env dg] by blast
  have f2: "fetch_repo_data (env_github chatty_env) (env_decode chatty_env) (req_repo_url demo_request)
             (or_default (req_github_token demo_request) (settings_github_token chatty_env)) = Inr dg"
    using f by (simp add: chatty_env_def demo_env_def demo_request_def or_default_def)
  have l2: "env_llm chatty_env system' human' = Inr ''Sure! Here is my analysis.''"
    by (simp add: chatty_env_def)
  have j2: "json_output_parser chatty_env ''Sure! Here is my analysis.''
              = Inl (ValueError ''Invalid json output: Sure! Here is my analysis.'')"
    by (simp add: chatty_env_def demo_env_def demo_parser_def demo_completion_def)
  note T2 = analysis_defaulting_and_hard_failure[where ev = chatty_env and request = demo_request
      and d = dg and system = system' and human = human' and reply = "''Sure! Here is my analysis.''"
      and e = "ValueError ''Invalid json output: Sure! Here is my analysis.''",
      THEN conjunct2, THEN conjunct1, THEN mp]
  have "analyze chatty_env demo_request
          = (Inl (analyze_handler (ValueError ''Invalid json output: Sure! Here is my analysis.'')),
             [(system', human')])"
    by (rule T2) (intro conjI f2 t p' l2 j2)
  then have second: "\<exists>calls. analyze chatty_env demo_request
          = (Inl (HTTPException 400 ''Invalid json output: Sure! Here is my analysis.''), calls)"
    by simp
  obtain system'' human'' where
    p'': "analysis_prompt (answering array_completion) dg = Inr (system'', human'')"
    using analysis_prompt_eq[of "answering array_completion" dg] by blast
  have f3: "fetch_repo_data (env_github (answering array_completion))
              (env_decode (answering array_completion)) (req_repo_url demo_request)
              (or_default (req_github_token demo_request)
                 (settings_github_token (answering array_completion))) = Inr dg"
    using f by (simp add: answering_def demo_env_def demo_request_def or_default_def)
  have l3: "env_llm (answering array_completion) system'' human'' = Inr array_completion"
    by (simp add: answering_def)
  have j3: "json_output_parser (answering array_completion) array_completion
              = Inr (JList [JInt 1, JInt 2])"
    by (simp add: answering_def lenient_parser_def)
  have n3: "\<forall>kvs. JList [JInt 1, JInt 2] \<noteq> JDict kvs" by simp
  note T3 = analysis_defaulting_and_hard_failure[where ev = "answering array_completion"
      and request = demo_request and d = dg and system = system'' and human = human''
      and reply = array_completion and parsed = "JList [JInt 1, JInt 2]",
      THEN conjunct2, THEN conjunct2, THEN mp]
  have "analyze (answering array_completion) demo_request
          = (Inl (HTTPException 500
                    ''Failed to analyze README: AttributeError: object has no attribute get''),
             [(system'', human'')])"
    by (rule T3) (intro conjI f3 t p'' l3 j3 n3)
  then have third: "\<exists>calls. analyze (answering array_completion) demo_request
          = (Inl (HTTPException 500
                    ''Failed to analyze README: AttributeError: object has no attribute get''),
             calls)"
    by simp
  show ?thesis by (intro conjI first second third)
qed

lemma analyze_answering:
  assumes "lenient_parser completion = Inr parsed"
  shows "fst (analyze (answering completion) demo_request)
           = (case make_response (answering completion) parsed ''octocat/Hello-World'' of
                Inl e \<Rightarrow> Inl (analyze_handler e)
              | Inr response \<Rightarrow> Inr response)"
proof -
  from demo_fetch obtain dg where
    f: "fetch_repo_data demo_github demo_decode ''octocat/Hello-World'' [] = Inr dg"
    and r: "existing_readme dg = Some ''Hello''"
    and n: "md_full_name (metadata dg) = ''octocat/Hello-World''"
    by blast
  have f': "fetch_repo_data (env_github (answering completion)) (env_decode (answering completion))
              (req_repo_url demo_request)
              (or_default (req_github_token demo_request)
                 (settings_github_token (answering completion))) = Inr dg"
    using f by (simp add: answering_def demo_env_def demo_request_def or_default_def)
  have t: "truthy (existing_readme dg)" by (simp add: r truthy_def)
  obtain system human where
    p: "analysis_prompt (answering completion) dg = Inr (system, human)"
    using analysis_prompt_eq[of "answering completion" dg] by blast
  have l: "env_llm (answering completion) system human = Inr completion"
    by (simp add: answering_def)
  have j: "json_output_parser (answering completion) completion = Inr parsed"
    using assms by (simp add: answering_def)
  have a: "analyze_readme (answering completion) dg = (Inr parsed, [(system, human)])"
    by (simp add: analyze_readme_def p l j)
  show ?thesis
    using f' t a by (simp add: analyze_def Let_def n split: sum.splits)
qed

text \<open>
  Claim C5 as stated fails on both sides. An array is valid JSON without the key
  \<open>strengths\<close>, and \<open>analyze\<close> fails on it with the error 500; so it does, with the
  error 400, on an object whose score is a word. And a completion that is not valid
  JSON, an object cut off before its closing brace, gives a verdict where the output
  parser completes it, as the parser of the library does.
\<close>

theorem analysis_counterexamples:
  "fst (analyze (answering array_completion) demo_request)
     = Inl (HTTPException 500
              ''Failed to analyze README: AttributeError: object has no attribute get'')
   \<and> isl (fst (analyze (answering worded_completion) demo_request))
   \<and> fst (analyze (answering truncated_completion) demo_request)
       = Inr \<lparr> score = 80, summary = [], strengths = [], improvements = [],
               missing_sections = [], repo_name = ''octocat/Hello-World'' \<rparr>"
proof -
  have 1: "lenient_parser array_completion = Inr (JList [JInt 1, JInt 2])"
    by (simp add: lenient_parser_def)
  have 2: "lenient_parser worded_completion = Inr (JDict [(''score'', JStr ''high'')])"
    by (simp add: lenient_parser_def worded_completion_def array_completion_def
        truncated_completion_def)
  have 3: "lenient_parser truncated_completion = Inr (JDict [(''score'', JInt 80)])"
    by (simp add: lenient_parser_def truncated_completion_def array_completion_def)
  show ?thesis
    unfolding analyze_answering[OF 1] analyze_answering[OF 2] analyze_answering[OF 3]
    by (simp add: make_response_def dict_get_def answering_def demo_env_def)
qed

end
